theory Spec2Isabelle
  imports Complex_Main "HOL-Library.Monad_Syntax"
begin

section \<open>Error classes (src/errors.ts)\<close>

text \<open>
  The providers named by the error classes. \<open>APIKeyError\<close> and \<open>AIResponseError\<close> are only
  ever built with \<open>openai\<close> or \<open>anthropic\<close>; \<open>RateLimitError\<close> accepts all four.
\<close>

datatype provider = p_github | p_npm | p_openai | p_anthropic

fun provider_name :: "provider \<Rightarrow> string" where
  "provider_name p_github = ''github''"
| "provider_name p_npm = ''npm''"
| "provider_name p_openai = ''openai''"
| "provider_name p_anthropic = ''anthropic''"

text \<open>
  A thrown value. Each class of \<open>errors.ts\<close> is a constructor carrying the constructor
  arguments of the class (the last argument is the optional \<open>cause\<close>); \<open>ZodError\<close> is what
  a failed schema \<open>parse\<close> throws, \<open>TypeError\<close> is the error of the language (a property
  read on \<open>undefined\<close>, a failed \<open>fetch\<close>), \<open>OtherError\<close> is any other thrown object,
  and \<open>ThrownUndefined\<close> and \<open>ThrownNull\<close> are \<open>throw undefined\<close> and \<open>throw null\<close>.
\<close>

datatype error =
    LyraError string string "error option"
  | APIKeyError provider "string option"
  | RateLimitError provider "int option" "error option"
  | NetworkError string "int option" "error option"
  | AnalysisError string "string option" "error option"
  | AIResponseError provider "string option" "error option"
  | ValidationError string "string option" "error option"
  | ZodError
  | TypeError string
  | OtherError string
  | ThrownUndefined
  | ThrownNull

text \<open>Decimal rendering of an integer below \<open>10^21\<close> inside a template literal.\<close>

fun show_nat :: "nat \<Rightarrow> string" where
  "show_nat n = (if n < 10 then [''0123456789'' ! n]
                 else show_nat (n div 10) @ [''0123456789'' ! (n mod 10)])"

definition show_int :: "int \<Rightarrow> string" where
  "show_int i = (if i < 0 then CHR ''-'' # show_nat (nat (- i)) else show_nat (nat i))"

text \<open>
  Reading \<open>e.message\<close>: the \<open>message\<close> each constructor passes to \<open>super\<close>.
  \<open>message || default\<close> falls back on an absent and on an empty message;
  \<open>retryAfter ? ... : ''\<close> and \<open>status ? ... : ''\<close> test truthiness, so \<open>0\<close> prints
  nothing. On a thrown \<open>undefined\<close> or \<open>null\<close> the read itself throws a \<open>TypeError\<close>.
\<close>

fun message :: "error \<Rightarrow> error + string" where
  "message (LyraError m c cause) = Inr m"
| "message (APIKeyError p m) =
     Inr (if m \<noteq> None \<and> m \<noteq> Some [] then the m
          else ''Missing or invalid API key for '' @ provider_name p @ ''. Set '' @
               (if p = p_openai then ''OPENAI_API_KEY'' else ''ANTHROPIC_API_KEY'') @
               '' environment variable.'')"
| "message (RateLimitError p retryAfter cause) =
     Inr (''Rate limited by '' @ provider_name p @
          (case retryAfter of
             None \<Rightarrow> []
           | Some s \<Rightarrow> if s \<noteq> 0 then ''. Retry after '' @ show_int s @ ''s'' else []))"
| "message (NetworkError url status cause) =
     Inr (''Network request failed: '' @ url @
          (case status of
             None \<Rightarrow> []
           | Some s \<Rightarrow> if s \<noteq> 0 then '' (status: '' @ show_int s @ '')'' else []))"
| "message (AnalysisError toolName m cause) =
     Inr (if m \<noteq> None \<and> m \<noteq> Some [] then the m else ''Failed to analyze tool: '' @ toolName)"
| "message (AIResponseError p rawResponse cause) =
     Inr (''Invalid response from '' @ provider_name p @ '' AI'')"
| "message (ValidationError m field cause) = Inr m"
| "message ZodError = Inr ''ZodError''"
| "message (TypeError m) = Inr m"
| "message (OtherError m) = Inr m"
| "message ThrownUndefined = Inl (TypeError ''Cannot read properties of undefined'')"
| "message ThrownNull = Inl (TypeError ''Cannot read properties of null'')"

fun code :: "error \<Rightarrow> string option" where
  "code (LyraError m c cause) = Some c"
| "code (APIKeyError p m) = Some ''API_KEY_ERROR''"
| "code (RateLimitError p retryAfter cause) = Some ''RATE_LIMIT_ERROR''"
| "code (NetworkError url status cause) = Some ''NETWORK_ERROR''"
| "code (AnalysisError toolName m cause) = Some ''ANALYSIS_ERROR''"
| "code (AIResponseError p rawResponse cause) = Some ''AI_RESPONSE_ERROR''"
| "code (ValidationError m field cause) = Some ''VALIDATION_ERROR''"
| "code ZodError = None"
| "code (TypeError m) = None"
| "code (OtherError m) = None"
| "code ThrownUndefined = None"
| "code ThrownNull = None"


fun isRetryableError :: "error \<Rightarrow> bool" where
  "isRetryableError (RateLimitError p retryAfter cause) = True"
| "isRetryableError (NetworkError url status cause) = True"
| "isRetryableError e = False"

section \<open>HTTP responses and the retry-after hint (src/errors.ts)\<close>

text \<open>
  The part of a fetch \<open>Response\<close> the code reads: the status and the headers, where
  \<open>headers r name\<close> is what \<open>response.headers.get(name)\<close> returns (\<open>None\<close> for
  \<open>null\<close>). \<open>response.ok\<close> is true exactly for a status from 200 to 299.
\<close>

record Response =
  status :: int
  headers :: "string \<Rightarrow> string option"
  body :: string







section \<open>Numbers\<close>

text \<open>
  The doubles (IEEE 754 binary64: 53 bits of precision, exponents from \<open>-1022\<close> to
  \<open>1023\<close>) and the rounding of a real result to the nearest of them. \<open>binade x\<close> is the
  exponent of the interval \<open>[2^e, 2^(e+1))\<close> that holds \<open>|x|\<close>, not below \<open>-1022\<close> (the
  subnormal numbers); \<open>ulp x\<close> is the distance between neighbouring doubles there.
  \<open>round_double x\<close> is the multiple of \<open>ulp x\<close> nearest to \<open>x\<close>, the even multiple when
  two are equally near. It does not bound the exponent from above: this is done by
  \<open>to_number\<close>.
\<close>

definition binade :: "real \<Rightarrow> int" where
  "binade x = max \<lfloor>log 2 \<bar>x\<bar>\<rfloor> (- 1022)"

definition ulp :: "real \<Rightarrow> real" where
  "ulp x = 2 powr (real_of_int (binade x) - 52)"

definition nearest_even :: "real \<Rightarrow> int" where
  "nearest_even t =
     (if t - of_int \<lfloor>t\<rfloor> < 1 / 2 \<or> (t - of_int \<lfloor>t\<rfloor> = 1 / 2 \<and> even \<lfloor>t\<rfloor>)
      then \<lfloor>t\<rfloor> else \<lfloor>t\<rfloor> + 1)"

definition round_double :: "real \<Rightarrow> real" where
  "round_double x = (if x = 0 then 0 else ulp x * of_int (nearest_even (x / ulp x)))"

text \<open>
  A JavaScript number as the retry module computes with it: a finite value, an infinity
  or \<open>NaN\<close>. \<open>to_number x\<close> is the number an operation gives whose exact result is \<open>x\<close>:
  \<open>x\<close> rounded, or an infinity when the rounded magnitude reaches \<open>2^1024\<close>. The
  products and sums follow IEEE 754 on the special values. The two zeros are one number
  here; no comparison of the module tells them apart.
\<close>

datatype number = Num real | PosInf | NegInf | NaN

definition to_number :: "real \<Rightarrow> number" where
  "to_number x =
     (if 2 ^ 1024 \<le> round_double x then PosInf
      else if round_double x \<le> - (2 ^ 1024) then NegInf
      else Num (round_double x))"

fun num_times :: "number \<Rightarrow> number \<Rightarrow> number" where
  "num_times NaN y = NaN"
| "num_times x NaN = NaN"
| "num_times (Num a) (Num b) = to_number (a * b)"
| "num_times (Num a) PosInf = (if a = 0 then NaN else if 0 < a then PosInf else NegInf)"
| "num_times (Num a) NegInf = (if a = 0 then NaN else if 0 < a then NegInf else PosInf)"
| "num_times PosInf (Num b) = (if b = 0 then NaN else if 0 < b then PosInf else NegInf)"
| "num_times NegInf (Num b) = (if b = 0 then NaN else if 0 < b then NegInf else PosInf)"
| "num_times PosInf PosInf = PosInf"
| "num_times PosInf NegInf = NegInf"
| "num_times NegInf PosInf = NegInf"
| "num_times NegInf NegInf = PosInf"

fun num_plus :: "number \<Rightarrow> number \<Rightarrow> number" where
  "num_plus NaN y = NaN"
| "num_plus x NaN = NaN"
| "num_plus (Num a) (Num b) = to_number (a + b)"
| "num_plus PosInf NegInf = NaN"
| "num_plus NegInf PosInf = NaN"
| "num_plus PosInf y = PosInf"
| "num_plus x PosInf = PosInf"
| "num_plus NegInf y = NegInf"
| "num_plus x NegInf = NegInf"

text \<open>\<open>Math.min\<close> of two numbers, \<open>Math.floor\<close>, and the comparison \<open>x <= y\<close>.\<close>

fun num_min :: "number \<Rightarrow> number \<Rightarrow> number" where
  "num_min NaN y = NaN"
| "num_min x NaN = NaN"
| "num_min (Num a) (Num b) = Num (min a b)"
| "num_min NegInf y = NegInf"
| "num_min x NegInf = NegInf"
| "num_min PosInf y = y"
| "num_min x PosInf = x"

fun num_floor :: "number \<Rightarrow> number" where
  "num_floor (Num a) = Num (of_int \<lfloor>a\<rfloor>)"
| "num_floor x = x"

fun num_le :: "number \<Rightarrow> number \<Rightarrow> bool" where
  "num_le NaN y = False"
| "num_le x NaN = False"
| "num_le (Num a) (Num b) = (a \<le> b)"
| "num_le NegInf y = True"
| "num_le x PosInf = True"
| "num_le x y = False"

section \<open>Retry with backoff (the retry module, second part of src/index.ts)\<close>

text \<open>
  A numeric field of \<open>RetryOptions\<close>: the key is missing, or it is there with the value
  \<open>undefined\<close>, or it holds a number. \<open>{ ...DEFAULT_OPTIONS, ...options }\<close> takes the
  default for a missing key only; an \<open>undefined\<close> that is there replaces the default, and
  in every comparison and product of the module it counts as \<open>NaN\<close>.
\<close>

datatype num_property = Missing | Undefined | Number number

fun merged :: "number \<Rightarrow> num_property \<Rightarrow> number" where
  "merged dflt Missing = dflt"
| "merged dflt Undefined = NaN"
| "merged dflt (Number n) = n"

text \<open>
  \<open>RetryOptions\<close>. The callback \<open>onRetry\<close> (\<open>None\<close> when missing or \<open>undefined\<close>) acts on
  the world \<open>'w\<close> the operation runs in; it returns \<open>Some e\<close> when it throws \<open>e\<close>. The
  lines written with \<open>debug\<close> are left out, but not the evaluation of their arguments.
\<close>

record 'w RetryOptions =
  maxRetries :: num_property
  baseDelayMs :: num_property
  maxDelayMs :: num_property
  onRetry :: "(nat \<Rightarrow> error \<Rightarrow> number \<Rightarrow> 'w \<Rightarrow> error option \<times> 'w) option"

definition DEFAULT_maxRetries :: number where
  "DEFAULT_maxRetries = Num 3"

definition DEFAULT_baseDelayMs :: number where
  "DEFAULT_baseDelayMs = Num 1000"

definition DEFAULT_maxDelayMs :: number where
  "DEFAULT_maxDelayMs = Num 30000"

text \<open>The fields of \<open>opts = { ...DEFAULT_OPTIONS, ...options }\<close>.\<close>

definition opts_maxRetries :: "'w RetryOptions \<Rightarrow> number" where
  "opts_maxRetries options = merged DEFAULT_maxRetries (maxRetries options)"

definition opts_baseDelayMs :: "'w RetryOptions \<Rightarrow> number" where
  "opts_baseDelayMs options = merged DEFAULT_baseDelayMs (baseDelayMs options)"

definition opts_maxDelayMs :: "'w RetryOptions \<Rightarrow> number" where
  "opts_maxDelayMs options = merged DEFAULT_maxDelayMs (maxDelayMs options)"

text \<open>\<open>Math.pow(2, attempt)\<close> for a loop counter: exact up to 1023, infinite from 1024 on.\<close>

definition Math_pow2 :: "nat \<Rightarrow> number" where
  "Math_pow2 attempt = to_number (2 ^ attempt)"

text \<open>
  \<open>calculateBackoff\<close>. The first argument is the sample \<open>Math.random()\<close> returns, a
  number in \<open>[0, 1)\<close>, so that the jitter factor \<open>0.3 * random\<close> lies in \<open>[0, 0.3)\<close>; the
  second is the attempt, the loop counter of \<open>withRetry\<close>. The literal \<open>0.3\<close> is the
  double nearest to three tenths, and \<open>Math.random() * 0.3 * exponentialDelay\<close> is two
  products, the left one first.
\<close>

definition calculateBackoff :: "real \<Rightarrow> nat \<Rightarrow> number \<Rightarrow> number \<Rightarrow> number" where
  "calculateBackoff random attempt baseDelay maxDelay =
     (let exponentialDelay = num_times baseDelay (Math_pow2 attempt);
          jitter = num_times (num_times (Num random) (Num (round_double 0.3))) exponentialDelay;
          delay = num_min (num_plus exponentialDelay jitter) maxDelay
      in num_floor delay)"

text \<open>
  What a run of \<open>withRetry\<close> does besides returning: each call of the operation and each
  \<open>sleep\<close>, in order.
\<close>

datatype retry_event = Invoked | Slept number

record ('a, 'w) retry_run =
  outcome :: "error + 'a"
  events :: "retry_event list"
  world :: 'w

definition invocations :: "('a, 'w) retry_run \<Rightarrow> nat" where
  "invocations r = length (filter (\<lambda>ev. ev = Invoked) (events r))"

definition sleeps :: "('a, 'w) retry_run \<Rightarrow> number list" where
  "sleeps r = concat (map (\<lambda>ev. case ev of Invoked \<Rightarrow> [] | Slept ms \<Rightarrow> [ms]) (events r))"

text \<open>The delay before the next attempt: the error's own hint when it has a truthy one.\<close>

fun retryDelay :: "error \<Rightarrow> real \<Rightarrow> nat \<Rightarrow> number \<Rightarrow> number \<Rightarrow> number" where
  "retryDelay (RateLimitError p (Some retryAfter) cause) random attempt baseDelay maxDelay =
     (if retryAfter \<noteq> 0 then num_times (Num (of_int retryAfter)) (Num 1000)
      else calculateBackoff random attempt baseDelay maxDelay)"
| "retryDelay e random attempt baseDelay maxDelay =
     calculateBackoff random attempt baseDelay maxDelay"

text \<open>
  The loop counter is a double as well: \<open>attempt++\<close> and \<open>attempt + 1\<close> add one as long as
  the counter is below \<open>2^53\<close>, and give \<open>2^53\<close> again from there (\<open>2^53 + 1\<close> is rounded
  to \<open>2^53\<close>).
\<close>

definition increment :: "nat \<Rightarrow> nat" where
  "increment attempt = (if attempt < 2 ^ 53 then attempt + 1 else attempt)"

text \<open>
  The \<open>for\<close> loop of \<open>withRetry\<close>, from the given \<open>attempt\<close> on. The operation \<open>fn\<close>
  takes the world and returns its result, \<open>Inl\<close> for a thrown error, with the new world.
  \<open>random k\<close> is the sample \<open>Math.random()\<close> gives when the backoff after attempt \<open>k\<close>
  is computed. In the \<open>catch\<close> block, an error that is not retryable is thrown again
  after \<open>lastError.message\<close> has been read, which throws on \<open>undefined\<close> and \<open>null\<close>;
  after the \<open>break\<close> the error thrown is \<open>lastError\<close>, the error just caught; a callback
  that throws ends the call. The last branch is the \<open>throw lastError\<close> reached when the
  loop condition fails. Where the loop does not end (an operation that never stops
  failing, with \<open>maxRetries\<close> infinite or above \<open>2^53\<close>) the result is \<open>None\<close>.
\<close>

partial_function (option) withRetry_loop ::
  "('w \<Rightarrow> (error + 'a) \<times> 'w) \<Rightarrow> 'w RetryOptions \<Rightarrow> (nat \<Rightarrow> real) \<Rightarrow>
   nat \<Rightarrow> error option \<Rightarrow> 'w \<Rightarrow> ('a, 'w) retry_run option" where
  "withRetry_loop fn options random attempt lastError w =
     (if num_le (Num (real attempt)) (opts_maxRetries options) then
        (case fn w of
           (Inr v, w1) \<Rightarrow> Some \<lparr>outcome = Inr v, events = [Invoked], world = w1\<rparr>
         | (Inl e, w1) \<Rightarrow>
             if \<not> isRetryableError e then
               (case message e of
                  Inl typeError \<Rightarrow> Some \<lparr>outcome = Inl typeError, events = [Invoked], world = w1\<rparr>
                | Inr m \<Rightarrow> Some \<lparr>outcome = Inl e, events = [Invoked], world = w1\<rparr>)
             else if num_le (opts_maxRetries options) (Num (real attempt))
             then Some \<lparr>outcome = Inl e, events = [Invoked], world = w1\<rparr>
             else
               (let delayMs = retryDelay e (random attempt) attempt
                                (opts_baseDelayMs options) (opts_maxDelayMs options)
                in case (case onRetry options of
                           None \<Rightarrow> (None, w1)
                         | Some callback \<Rightarrow> callback (increment attempt) e delayMs w1) of
                     (Some thrown, w2) \<Rightarrow>
                       Some \<lparr>outcome = Inl thrown, events = [Invoked], world = w2\<rparr>
                   | (None, w2) \<Rightarrow>
                       do {
                         rest \<leftarrow> withRetry_loop fn options random (increment attempt) (Some e) w2;
                         Some (rest\<lparr>events := Invoked # Slept delayMs # events rest\<rparr>)
                       }))
      else Some \<lparr>outcome = Inl (case lastError of None \<Rightarrow> ThrownUndefined | Some e \<Rightarrow> e),
                 events = [], world = w\<rparr>)"

definition withRetry ::
  "('w \<Rightarrow> (error + 'a) \<times> 'w) \<Rightarrow> 'w RetryOptions \<Rightarrow> (nat \<Rightarrow> real) \<Rightarrow> 'w \<Rightarrow>
   ('a, 'w) retry_run option" where
  "withRetry fn options random w = withRetry_loop fn options random 0 None w"




section \<open>Schemas of the AI response (src/schemas.ts)\<close>

text \<open>
  The \<open>unknown\<close> input of the schemas: a JavaScript value as \<open>JSON.parse\<close> builds it, with
  \<open>undefined\<close> added, and with objects that may have accessor properties. An object is
  the list of its properties, each key once; a property holds a value (\<open>Data\<close>) or is an
  accessor whose getter throws (\<open>Getter\<close>). \<open>getProp\<close> reads \<open>data[key]\<close>: \<open>undefined\<close>
  for a missing key, \<open>Inl\<close> the error when the getter throws. No schema of the file
  accepts a number, whatever its value. Functions, symbols, dates and the other objects
  of the platform are left out.
\<close>

datatype jsval =
    JUndefined
  | JNull
  | JBool bool
  | JNum real
  | JStr string
  | JArr "jsval list"
  | JObj "(string \<times> jsprop) list"
and jsprop =
    Data jsval
  | Getter error

fun readProp :: "jsprop \<Rightarrow> error + jsval" where
  "readProp (Data v) = Inr v"
| "readProp (Getter e) = Inl e"

definition getProp :: "(string \<times> jsprop) list \<Rightarrow> string \<Rightarrow> error + jsval" where
  "getProp props key = (case map_of props key of None \<Rightarrow> Inr JUndefined | Some p \<Rightarrow> readProp p)"

text \<open>
  What the \<open>_parse\<close> of a zod schema does with a value (zod 3, the version whose
  \<open>z.record\<close> takes the value schema alone, as in this file): it throws (only a getter
  of the input throws here), or it reports issues, or it yields the parsed output.
  \<open>both\<close> runs two parses one after the other, as \<open>z.object\<close> runs the parses of its
  keys: each key is read and parsed, also after an earlier key has failed, so that a
  throwing getter is reached unless an earlier one has thrown. \<open>orElse\<close> is \<open>z.union\<close>:
  the second option runs when the first reports issues.
\<close>

datatype 'a parsed = Threw error | Invalid | Valid 'a

fun map_parsed :: "('a \<Rightarrow> 'b) \<Rightarrow> 'a parsed \<Rightarrow> 'b parsed" where
  "map_parsed f (Threw e) = Threw e"
| "map_parsed f Invalid = Invalid"
| "map_parsed f (Valid a) = Valid (f a)"

fun bind_parsed :: "'a parsed \<Rightarrow> ('a \<Rightarrow> 'b parsed) \<Rightarrow> 'b parsed" where
  "bind_parsed (Threw e) f = Threw e"
| "bind_parsed Invalid f = Invalid"
| "bind_parsed (Valid a) f = f a"

fun both :: "'a parsed \<Rightarrow> 'b parsed \<Rightarrow> ('a \<times> 'b) parsed" where
  "both (Threw e) r = Threw e"
| "both l (Threw e) = Threw e"
| "both (Valid a) (Valid b) = Valid (a, b)"
| "both l r = Invalid"

fun all_valid :: "'a parsed list \<Rightarrow> 'a list parsed" where
  "all_valid [] = Valid []"
| "all_valid (r # rs) = map_parsed (\<lambda>(x, xs). x # xs) (both r (all_valid rs))"

fun orElse :: "'a parsed \<Rightarrow> 'a parsed \<Rightarrow> 'a parsed" where
  "orElse (Valid a) r = Valid a"
| "orElse (Threw e) r = Threw e"
| "orElse Invalid r = r"

text \<open>
  Every schema first takes the type of its value, and for an object this reads the
  property \<open>then\<close> (the test for a promise). \<open>reject\<close> is the answer to a value of the
  wrong type, \<open>asObject\<close> the entry of \<open>z.object\<close>, \<open>z.record\<close> and the unions, and
  \<open>field\<close> the read and the parse of one key. \<open>z.object\<close> strips unknown keys, so its
  output holds the declared keys only. The test behind \<open>z.string().url()\<close> (the
  platform's \<open>new URL(s)\<close> not throwing) is the parameter \<open>isUrl\<close>.
\<close>

fun reject :: "jsval \<Rightarrow> 'a parsed" where
  "reject (JObj props) = (case getProp props ''then'' of Inl e \<Rightarrow> Threw e | Inr v \<Rightarrow> Invalid)"
| "reject v = Invalid"

fun asObject :: "jsval \<Rightarrow> (string \<times> jsprop) list parsed" where
  "asObject (JObj props) =
     (case getProp props ''then'' of Inl e \<Rightarrow> Threw e | Inr v \<Rightarrow> Valid props)"
| "asObject v = Invalid"

definition field :: "(string \<times> jsprop) list \<Rightarrow> string \<Rightarrow> (jsval \<Rightarrow> 'a parsed) \<Rightarrow> 'a parsed" where
  "field props key schema = (case getProp props key of Inl e \<Rightarrow> Threw e | Inr v \<Rightarrow> schema v)"

fun zString :: "jsval \<Rightarrow> string parsed" where
  "zString (JStr s) = Valid s"
| "zString v = reject v"

definition zUrl :: "(string \<Rightarrow> bool) \<Rightarrow> jsval \<Rightarrow> string parsed" where
  "zUrl isUrl v = bind_parsed (zString v) (\<lambda>s. if isUrl s then Valid s else Invalid)"

definition zLiteral :: "string \<Rightarrow> jsval \<Rightarrow> unit parsed" where
  "zLiteral lit v = (if v = JStr lit then Valid () else reject v)"

definition zOptional :: "(jsval \<Rightarrow> 'a parsed) \<Rightarrow> jsval \<Rightarrow> 'a option parsed" where
  "zOptional schema v = (if v = JUndefined then Valid None else map_parsed Some (schema v))"

fun zStringArray :: "jsval \<Rightarrow> string list parsed" where
  "zStringArray (JArr items) = all_valid (map zString items)"
| "zStringArray v = reject v"

definition zStringRecord :: "jsval \<Rightarrow> (string \<times> string) list parsed" where
  "zStringRecord v =
     bind_parsed (asObject v) (\<lambda>props.
       all_valid (map (\<lambda>(key, p). case readProp p of
                                     Inl e \<Rightarrow> Threw e
                                   | Inr x \<Rightarrow> map_parsed (Pair key) (zString x)) props))"

datatype PluginTemplate =
  MCP_HTTP | MCP_STDIO | OPENAPI | BASIC | DEFAULT | MARKDOWN | STANDALONE | SETTINGS

definition template_names :: "(string \<times> PluginTemplate) list" where
  "template_names =
     [(''mcp-http'', MCP_HTTP), (''mcp-stdio'', MCP_STDIO), (''openapi'', OPENAPI),
      (''basic'', BASIC), (''default'', DEFAULT), (''markdown'', MARKDOWN),
      (''standalone'', STANDALONE), (''settings'', SETTINGS)]"

fun PluginTemplateSchema :: "jsval \<Rightarrow> PluginTemplate parsed" where
  "PluginTemplateSchema (JStr s) =
     (case map_of template_names s of None \<Rightarrow> Invalid | Some t \<Rightarrow> Valid t)"
| "PluginTemplateSchema v = reject v"

datatype AuthType = AUTH_NONE | AUTH_BEARER | AUTH_OAUTH2

fun AuthTypeSchema :: "jsval \<Rightarrow> AuthType parsed" where
  "AuthTypeSchema (JStr s) =
     (case map_of [(''none'', AUTH_NONE), (''bearer'', AUTH_BEARER), (''oauth2'', AUTH_OAUTH2)] s of
        None \<Rightarrow> Invalid
      | Some t \<Rightarrow> Valid t)"
| "AuthTypeSchema v = reject v"

text \<open>The \<open>auth\<close> object of an HTTP connection: type, token, accessToken.\<close>

datatype MCPAuthConfig = MCPAuthConfig AuthType "string option" "string option"

definition MCPAuthConfigSchema :: "jsval \<Rightarrow> MCPAuthConfig parsed" where
  "MCPAuthConfigSchema v =
     bind_parsed (asObject v) (\<lambda>props.
       map_parsed (\<lambda>(type, token, accessToken). MCPAuthConfig type token accessToken)
         (both (field props ''type'' AuthTypeSchema)
         (both (field props ''token'' (zOptional zString))
               (field props ''accessToken'' (zOptional zString)))))"

text \<open>
  A connection descriptor; the constructor is the \<open>type\<close> tag. \<open>MCPHttp url auth headers\<close>
  and \<open>MCPStdio command args env\<close>.
\<close>

datatype MCPConnection =
    MCPHttp string "MCPAuthConfig option" "(string \<times> string) list option"
  | MCPStdio string "string list option" "(string \<times> string) list option"

definition MCPHttpConfigSchema :: "(string \<Rightarrow> bool) \<Rightarrow> jsval \<Rightarrow> MCPConnection parsed" where
  "MCPHttpConfigSchema isUrl v =
     bind_parsed (asObject v) (\<lambda>props.
       map_parsed (\<lambda>(type, url, auth, headers). MCPHttp url auth headers)
         (both (field props ''type'' (zLiteral ''http''))
         (both (field props ''url'' (zUrl isUrl))
         (both (field props ''auth'' (zOptional MCPAuthConfigSchema))
               (field props ''headers'' (zOptional zStringRecord))))))"

definition MCPStdioConfigSchema :: "jsval \<Rightarrow> MCPConnection parsed" where
  "MCPStdioConfigSchema v =
     bind_parsed (asObject v) (\<lambda>props.
       map_parsed (\<lambda>(type, command, args, env). MCPStdio command args env)
         (both (field props ''type'' (zLiteral ''stdio''))
         (both (field props ''command'' zString)
         (both (field props ''args'' (zOptional zStringArray))
               (field props ''env'' (zOptional zStringRecord))))))"

text \<open>
  \<open>z.discriminatedUnion('type', ...)\<close>: the value of \<open>type\<close> is read and chooses the
  option, which then parses the whole object.
\<close>

definition MCPConnectionSchema :: "(string \<Rightarrow> bool) \<Rightarrow> jsval \<Rightarrow> MCPConnection parsed" where
  "MCPConnectionSchema isUrl v =
     bind_parsed (asObject v) (\<lambda>props.
       case getProp props ''type'' of
         Inl e \<Rightarrow> Threw e
       | Inr discriminator \<Rightarrow>
           if discriminator = JStr ''http'' then MCPHttpConfigSchema isUrl v
           else if discriminator = JStr ''stdio'' then MCPStdioConfigSchema v
           else Invalid)"

text \<open>\<open>PluginMeta title description avatar tags category\<close>.\<close>

datatype PluginMeta =
  PluginMeta string string "string option" "string list option" "string option"

definition PluginMetaSchema :: "jsval \<Rightarrow> PluginMeta parsed" where
  "PluginMetaSchema v =
     bind_parsed (asObject v) (\<lambda>props.
       map_parsed (\<lambda>(title, description, avatar, tags, category).
                     PluginMeta title description avatar tags category)
         (both (field props ''title'' zString)
         (both (field props ''description'' zString)
         (both (field props ''avatar'' (zOptional zString))
         (both (field props ''tags'' (zOptional zStringArray))
               (field props ''category'' (zOptional zString)))))))"

text \<open>
  The two shapes of \<open>config\<close>: \<open>MCPPluginConfig identifier mcp description avatar\<close> (the
  last three are the fields of \<open>customParams\<close>) and
  \<open>StandardPluginConfig identifier manifest author meta\<close>.
\<close>

datatype PluginConfig =
    MCPPluginConfig string MCPConnection "string option" "string option"
  | StandardPluginConfig string "string option" "string option" "PluginMeta option"

definition customParamsSchema ::
  "(string \<Rightarrow> bool) \<Rightarrow> jsval \<Rightarrow> (MCPConnection \<times> string option \<times> string option) parsed" where
  "customParamsSchema isUrl v =
     bind_parsed (asObject v) (\<lambda>props.
       both (field props ''mcp'' (MCPConnectionSchema isUrl))
      (both (field props ''description'' (zOptional zString))
            (field props ''avatar'' (zOptional zString))))"

definition MCPPluginConfigSchema :: "(string \<Rightarrow> bool) \<Rightarrow> jsval \<Rightarrow> PluginConfig parsed" where
  "MCPPluginConfigSchema isUrl v =
     bind_parsed (asObject v) (\<lambda>props.
       map_parsed (\<lambda>(identifier, mcp, description, avatar).
                     MCPPluginConfig identifier mcp description avatar)
         (both (field props ''identifier'' zString)
               (field props ''customParams'' (customParamsSchema isUrl))))"

definition StandardPluginConfigSchema :: "jsval \<Rightarrow> PluginConfig parsed" where
  "StandardPluginConfigSchema v =
     bind_parsed (asObject v) (\<lambda>props.
       map_parsed (\<lambda>(identifier, manifest, author, meta).
                     StandardPluginConfig identifier manifest author meta)
         (both (field props ''identifier'' zString)
         (both (field props ''manifest'' (zOptional zString))
         (both (field props ''author'' (zOptional zString))
               (field props ''meta'' (zOptional PluginMetaSchema))))))"

text \<open>\<open>z.union([MCPPluginConfigSchema, StandardPluginConfigSchema])\<close>: the first option that
  parses wins.\<close>

definition configSchema :: "(string \<Rightarrow> bool) \<Rightarrow> jsval \<Rightarrow> PluginConfig parsed" where
  "configSchema isUrl v = orElse (MCPPluginConfigSchema isUrl v) (StandardPluginConfigSchema v)"

record TemplateDecision =
  template :: PluginTemplate
  reasoning :: string
  config :: PluginConfig

definition AIAnalysisResponseSchema :: "(string \<Rightarrow> bool) \<Rightarrow> jsval \<Rightarrow> TemplateDecision parsed" where
  "AIAnalysisResponseSchema isUrl v =
     bind_parsed (asObject v) (\<lambda>props.
       map_parsed (\<lambda>(t, r, c). \<lparr>template = t, reasoning = r, config = c\<rparr>)
         (both (field props ''template'' PluginTemplateSchema)
         (both (field props ''reasoning'' zString)
               (field props ''config'' (configSchema isUrl)))))"

text \<open>
  The two methods of a zod schema. \<open>safeParse\<close> runs the schema and wraps what it
  reports; it catches nothing, so an error thrown while the input is read leaves it.
  \<open>parse\<close> calls \<open>safeParse\<close> and throws the \<open>ZodError\<close> of a failure.
\<close>

datatype 'a SafeParseReturn = Success 'a | Failure

definition zod_safeParse :: "(jsval \<Rightarrow> 'a parsed) \<Rightarrow> jsval \<Rightarrow> error + 'a SafeParseReturn" where
  "zod_safeParse schema data =
     (case schema data of
        Threw e \<Rightarrow> Inl e
      | Invalid \<Rightarrow> Inr Failure
      | Valid a \<Rightarrow> Inr (Success a))"

definition zod_parse :: "(jsval \<Rightarrow> 'a parsed) \<Rightarrow> jsval \<Rightarrow> error + 'a" where
  "zod_parse schema data =
     (case zod_safeParse schema data of
        Inl e \<Rightarrow> Inl e
      | Inr Failure \<Rightarrow> Inl ZodError
      | Inr (Success a) \<Rightarrow> Inr a)"

text \<open>
  \<open>parseAIResponse\<close> and \<open>safeParseAIResponse\<close>; \<open>null\<close> is \<open>None\<close>, and \<open>Inl\<close> is an error
  that leaves the function.
\<close>

definition parseAIResponse :: "(string \<Rightarrow> bool) \<Rightarrow> jsval \<Rightarrow> error + TemplateDecision" where
  "parseAIResponse isUrl data = zod_parse (AIAnalysisResponseSchema isUrl) data"

definition safeParseAIResponse ::
  "(string \<Rightarrow> bool) \<Rightarrow> jsval \<Rightarrow> error + TemplateDecision option" where
  "safeParseAIResponse isUrl data =
     (case zod_safeParse (AIAnalysisResponseSchema isUrl) data of
        Inl e \<Rightarrow> Inl e
      | Inr (Success d) \<Rightarrow> Inr (Some d)
      | Inr Failure \<Rightarrow> Inr None)"

definition isValidTemplate :: "string \<Rightarrow> bool" where
  "isValidTemplate t =
     (case zod_safeParse PluginTemplateSchema (JStr t) of
        Inr (Success p) \<Rightarrow> True
      | r \<Rightarrow> False)"

section \<open>The discovery pipeline (class ToolDiscovery, src/index.ts)\<close>

datatype DiscoverySource =
  github | npm | smithery | mcp_directory | openapi_directory | rapidapi

text \<open>
  A \<open>DiscoveredTool\<close>, with the fields the pipeline reads and the identifier (the field
  \<open>id\<close>, here \<open>tool_id\<close>). The optional fields of the interface that \<open>discover\<close>
  never reads are left out.
\<close>

record DiscoveredTool =
  tool_id :: string
  name :: string
  description :: string
  source :: DiscoverySource
  sourceUrl :: string
  hasMCPSupport :: "bool option"
  readme :: "string option"

record DiscoveryResult =
  tool :: DiscoveredTool
  decision :: TemplateDecision
  generated_pluginConfig :: PluginConfig

text \<open>\<open>DiscoveryOptions\<close>; a missing option is \<open>None\<close> and takes the default.\<close>

record DiscoveryOptions =
  sources :: "DiscoverySource list option"
  limit :: "int option"
  dryRun :: "bool option"
  outputDir :: "string option"
  maxAgeMonths :: "int option"

definition CRYPTO_KEYWORDS :: "string list" where
  "CRYPTO_KEYWORDS =
     [''crypto'', ''cryptocurrency'', ''defi'', ''blockchain'', ''web3'',
      ''ethereum'', ''eth'', ''solana'', ''sol'', ''bitcoin'', ''btc'',
      ''wallet'', ''token'', ''nft'', ''dex'', ''swap'', ''staking'',
      ''yield'', ''bridge'', ''chain'', ''smart contract'', ''erc20'',
      ''erc721'', ''uniswap'', ''aave'', ''compound'', ''lending'',
      ''liquidity'', ''vault'', ''protocol'', ''onchain'', ''on-chain'',
      ''web3.js'', ''ethers'', ''viem'', ''wagmi'', ''rainbowkit'']"

text \<open>
  The string methods used by \<open>isCryptoRelated\<close>, on ASCII text: \<open>toLowerCase\<close>,
  \<open>includes\<close> (a substring test, \<open>includes_str\<close>) and \<open>slice(0, n)\<close> for \<open>n \<ge> 0\<close>.
\<close>

definition toLowerChar :: "char \<Rightarrow> char" where
  "toLowerChar c =
     (case map_of (zip ''ABCDEFGHIJKLMNOPQRSTUVWXYZ'' ''abcdefghijklmnopqrstuvwxyz'') c of
        None \<Rightarrow> c
      | Some l \<Rightarrow> l)"

definition toLowerCase :: "string \<Rightarrow> string" where
  "toLowerCase s = map toLowerChar s"

fun includes_str :: "string \<Rightarrow> string \<Rightarrow> bool" where
  "includes_str [] keyword = (keyword = [])"
| "includes_str (c # cs) keyword =
     (take (length keyword) (c # cs) = keyword \<or> includes_str cs keyword)"

definition isCryptoRelated :: "DiscoveredTool \<Rightarrow> bool" where
  "isCryptoRelated t =
     (let searchText = toLowerCase (name t @ '' '' @ description t @ '' '' @
                         (case readme t of None \<Rightarrow> [] | Some r \<Rightarrow> take 5000 r))
      in list_ex (\<lambda>keyword. includes_str searchText (toLowerCase keyword)) CRYPTO_KEYWORDS)"

text \<open>\<open>xs.slice(0, n)\<close>: a negative \<open>n\<close> counts from the end.\<close>

definition slice0 :: "'a list \<Rightarrow> int \<Rightarrow> 'a list" where
  "slice0 xs n = (if n < 0 then take (length xs - nat (- n)) xs else take (nat n) xs)"

text \<open>
  The collaborators a \<open>ToolDiscovery\<close> object holds, whose code is outside this file: the
  two source adapters and the AI analyzer. Each network operation takes the state of the
  world \<open>'w\<close> and returns its result, \<open>Inl\<close> for a thrown error, with the new state.
\<close>

record 'w ToolDiscovery =
  github_searchMCPServers :: "int \<Rightarrow> int \<Rightarrow> 'w \<Rightarrow> (error + DiscoveredTool list) \<times> 'w"
  npm_searchMCPServers :: "int \<Rightarrow> 'w \<Rightarrow> (error + DiscoveredTool list) \<times> 'w"
  ai_analyzeAndDecide :: "DiscoveredTool \<Rightarrow> 'w \<Rightarrow> (error + TemplateDecision) \<times> 'w"
  ai_generateQuickImport :: "TemplateDecision \<Rightarrow> string option"

text \<open>One constructor for each console call of \<open>discover\<close>, with the values it prints.\<close>

datatype console_line =
    Log_discovering "DiscoverySource list"
  | Log_max_age int
  | Log_found nat DiscoverySource
  | Error_from_source DiscoverySource error
  | Warn_not_implemented DiscoverySource
  | Log_total nat
  | Log_crypto_related nat
  | Log_mcp_compatible nat
  | Log_would_analyze string
  | Log_dry_source DiscoverySource
  | Log_dry_url string
  | Log_dry_mcp bool
  | Log_analyzing string
  | Log_template PluginTemplate
  | Log_reasoning string
  | Log_quick_import string
  | Error_failed_to_analyze error

fun discoverFromSource ::
  "'w ToolDiscovery \<Rightarrow> DiscoverySource \<Rightarrow> int \<Rightarrow> int \<Rightarrow> 'w \<Rightarrow>
   (error + DiscoveredTool list) \<times> console_line list \<times> 'w" where
  "discoverFromSource this github lmt age w =
     (case github_searchMCPServers this lmt age w of (r, w1) \<Rightarrow> (r, [], w1))"
| "discoverFromSource this npm lmt age w =
     (case npm_searchMCPServers this lmt w of (r, w1) \<Rightarrow> (r, [], w1))"
| "discoverFromSource this src lmt age w = (Inr [], [Warn_not_implemented src], w)"

text \<open>
  The first loop of \<open>discover\<close>: every requested source in turn, a failing source caught
  and logged. The result is the array \<open>tools\<close>, the console lines and the new world.
\<close>

fun collect ::
  "'w ToolDiscovery \<Rightarrow> DiscoverySource list \<Rightarrow> int \<Rightarrow> int \<Rightarrow> 'w \<Rightarrow>
   DiscoveredTool list \<times> console_line list \<times> 'w" where
  "collect this [] lmt age w = ([], [], w)"
| "collect this (src # rest) lmt age w =
     (case discoverFromSource this src lmt age w of
        (Inr discovered, warned, w1) \<Rightarrow>
          (case collect this rest lmt age w1 of
             (tools, lines, w2) \<Rightarrow>
               (discovered @ tools, warned @ [Log_found (length discovered) src] @ lines, w2))
      | (Inl e, warned, w1) \<Rightarrow>
          (case collect this rest lmt age w1 of
             (tools, lines, w2) \<Rightarrow> (tools, warned @ [Error_from_source src e] @ lines, w2)))"

text \<open>
  The second loop, over \<open>mcpTools.slice(0, limit)\<close>. It returns the array \<open>results\<close>, the
  console lines, the tools \<open>analyzeAndDecide\<close> was called with, in order, and the new
  world.
\<close>

fun analyzeLoop ::
  "'w ToolDiscovery \<Rightarrow> bool \<Rightarrow> DiscoveredTool list \<Rightarrow> 'w \<Rightarrow>
   DiscoveryResult list \<times> console_line list \<times> DiscoveredTool list \<times> 'w" where
  "analyzeLoop this dry [] w = ([], [], [], w)"
| "analyzeLoop this dry (t # rest) w =
     (if dry then
        (case analyzeLoop this dry rest w of
           (results, lines, calls, w2) \<Rightarrow>
             (results,
              [Log_would_analyze (name t), Log_dry_source (source t), Log_dry_url (sourceUrl t),
               Log_dry_mcp (hasMCPSupport t = Some True)] @ lines,
              calls, w2))
      else
        (case ai_analyzeAndDecide this t w of
           (Inr d, w1) \<Rightarrow>
             (case analyzeLoop this dry rest w1 of
                (results, lines, calls, w2) \<Rightarrow>
                  (\<lparr>tool = t, decision = d, generated_pluginConfig = config d\<rparr> # results,
                   [Log_analyzing (name t), Log_template (template d), Log_reasoning (reasoning d)]
                     @ (case ai_generateQuickImport this d of
                          None \<Rightarrow> []
                        | Some quickImport \<Rightarrow>
                            if quickImport = [] then [] else [Log_quick_import quickImport])
                     @ lines,
                   t # calls, w2))
         | (Inl e, w1) \<Rightarrow>
             (case analyzeLoop this dry rest w1 of
                (results, lines, calls, w2) \<Rightarrow>
                  (results, [Log_analyzing (name t), Error_failed_to_analyze e] @ lines,
                   t # calls, w2))))"

text \<open>
  What a call of \<open>discover\<close> does: the value the promise settles with (\<open>Inr\<close> the
  returned array, \<open>Inl\<close> a rejection), the console output, the calls of the analyzer and
  the world it leaves.
\<close>

record 'w discovery_run =
  returned :: "error + DiscoveryResult list"
  console :: "console_line list"
  analyzed :: "DiscoveredTool list"
  world_after :: 'w

definition opt_sources :: "DiscoveryOptions \<Rightarrow> DiscoverySource list" where
  "opt_sources options = (case sources options of None \<Rightarrow> [github, npm] | Some s \<Rightarrow> s)"

definition opt_limit :: "DiscoveryOptions \<Rightarrow> int" where
  "opt_limit options = (case limit options of None \<Rightarrow> 10 | Some l \<Rightarrow> l)"

definition opt_dryRun :: "DiscoveryOptions \<Rightarrow> bool" where
  "opt_dryRun options = (case dryRun options of None \<Rightarrow> False | Some d \<Rightarrow> d)"

definition opt_maxAgeMonths :: "DiscoveryOptions \<Rightarrow> int" where
  "opt_maxAgeMonths options = (case maxAgeMonths options of None \<Rightarrow> 12 | Some m \<Rightarrow> m)"

text \<open>The candidates the second loop runs over, from the collected \<open>tools\<close>.\<close>

definition candidates :: "DiscoveredTool list \<Rightarrow> int \<Rightarrow> DiscoveredTool list" where
  "candidates tools lmt =
     (let cryptoTools = filter isCryptoRelated tools;
          mcpTools = filter (\<lambda>t. hasMCPSupport t = Some True) cryptoTools
      in slice0 mcpTools lmt)"

definition discover :: "'w ToolDiscovery \<Rightarrow> DiscoveryOptions \<Rightarrow> 'w \<Rightarrow> 'w discovery_run" where
  "discover this options w =
     (case collect this (opt_sources options) (opt_limit options) (opt_maxAgeMonths options) w of
        (tools, lines1, w1) \<Rightarrow>
          let head_lines = [Log_discovering (opt_sources options),
                            Log_max_age (opt_maxAgeMonths options)] @ lines1
                           @ [Log_total (length tools)]
          in if tools = [] then
               \<lparr>returned = Inr [], console = head_lines, analyzed = [], world_after = w1\<rparr>
             else
               (let cryptoTools = filter isCryptoRelated tools;
                    mcpTools = filter (\<lambda>t. hasMCPSupport t = Some True) cryptoTools
                in case analyzeLoop this (opt_dryRun options)
                          (candidates tools (opt_limit options)) w1 of
                     (results, lines2, calls, w2) \<Rightarrow>
                       \<lparr>returned = Inr results,
                        console = head_lines @ [Log_crypto_related (length cryptoTools),
                                                Log_mcp_compatible (length mcpTools)] @ lines2,
                        analyzed = calls, world_after = w2\<rparr>))"

section \<open>Vocabulary of the statements\<close>

text \<open>
  The outcomes of the classification calls of one run, in order: each candidate with what
  \<open>analyzeAndDecide\<close> answers for it in the world the preceding calls left.
\<close>

fun classifications ::
  "'w ToolDiscovery \<Rightarrow> DiscoveredTool list \<Rightarrow> 'w \<Rightarrow>
   (DiscoveredTool \<times> (error + TemplateDecision)) list" where
  "classifications this [] w = []"
| "classifications this (t # rest) w =
     (case ai_analyzeAndDecide this t w of (r, w1) \<Rightarrow> (t, r) # classifications this rest w1)"

text \<open>The results of the classified candidates, and the errors of the others.\<close>

fun kept :: "(DiscoveredTool \<times> (error + TemplateDecision)) list \<Rightarrow> DiscoveryResult list" where
  "kept [] = []"
| "kept ((t, Inr d) # rest) =
     \<lparr>tool = t, decision = d, generated_pluginConfig = config d\<rparr> # kept rest"
| "kept ((t, Inl e) # rest) = kept rest"

fun excluded :: "(DiscoveredTool \<times> (error + TemplateDecision)) list \<Rightarrow> error list" where
  "excluded [] = []"
| "excluded ((t, Inr d) # rest) = excluded rest"
| "excluded ((t, Inl e) # rest) = e # excluded rest"

text \<open>The errors of the \<open>Failed to analyze\<close> lines of a console output.\<close>

fun failures :: "console_line list \<Rightarrow> error list" where
  "failures [] = []"
| "failures (Error_failed_to_analyze e # rest) = e # failures rest"
| "failures (l # rest) = failures rest"

text \<open>
  Plain data: a value in which no property is an accessor, at any depth. \<open>threw\<close> tells
  that a parse has thrown.
\<close>

fun plain :: "jsval \<Rightarrow> bool" and plain_prop :: "jsprop \<Rightarrow> bool" where
  "plain (JArr items) = list_all plain items"
| "plain (JObj props) = list_all (\<lambda>kp. plain_prop (snd kp)) props"
| "plain v = True"
| "plain_prop (Data v) = plain v"
| "plain_prop (Getter e) = False"

fun threw :: "'a parsed \<Rightarrow> bool" where
  "threw (Threw e) = True"
| "threw r = False"


section \<open>Fixtures\<close>

text \<open>
  Operations, policies and jitter samples for the retry layer. The world counts the calls
  of the operation. The policies: two retries; no retry; \<open>maxRetries: -1\<close>;
  \<open>maxRetries: undefined\<close>.
\<close>

definition always_503 :: "nat \<Rightarrow> (error + Response) \<times> nat" where
  "always_503 calls =
     (Inl (NetworkError ''https://api.github.com/search'' (Some 503) None), calls + 1)"

definition missing_key :: "nat \<Rightarrow> (error + Response) \<times> nat" where
  "missing_key calls = (Inl (APIKeyError p_openai None), calls + 1)"

definition throws_undefined :: "nat \<Rightarrow> (error + Response) \<times> nat" where
  "throws_undefined calls = (Inl ThrownUndefined, calls + 1)"

definition no_jitter :: "nat \<Rightarrow> real" where
  "no_jitter attempt = 0"


definition two_retries :: "nat RetryOptions" where
  "two_retries =
     \<lparr>maxRetries = Number (Num 2), baseDelayMs = Missing, maxDelayMs = Missing, onRetry = None\<rparr>"


definition negative_retries :: "nat RetryOptions" where
  "negative_retries =
     \<lparr>maxRetries = Number (Num (- 1)), baseDelayMs = Missing, maxDelayMs = Missing,
      onRetry = None\<rparr>"

definition undefined_retries :: "nat RetryOptions" where
  "undefined_retries =
     \<lparr>maxRetries = Undefined, baseDelayMs = Missing, maxDelayMs = Missing, onRetry = None\<rparr>"










text \<open>
  AI responses. \<open>https_only\<close> stands in for the URL test. \<open>http_with_stdio\<close> names the
  template \<open>mcp-http\<close> and carries a stdio descriptor; \<open>stdio_with_http\<close> is the converse.
  \<open>trapped_response\<close> is \<open>{ get template() { throw new Error('trap') } }\<close>.
\<close>

definition https_only :: "string \<Rightarrow> bool" where
  "https_only s = (take 8 s = ''https://'')"

definition stdio_descriptor :: jsval where
  "stdio_descriptor =
     JObj [(''type'', Data (JStr ''stdio'')), (''command'', Data (JStr ''npx'')),
           (''args'', Data (JArr [JStr ''-y'', JStr ''my-mcp-tool'']))]"

definition http_descriptor :: jsval where
  "http_descriptor =
     JObj [(''type'', Data (JStr ''http'')), (''url'', Data (JStr ''https://example.com/mcp''))]"

definition http_with_stdio :: jsval where
  "http_with_stdio =
     JObj [(''template'', Data (JStr ''mcp-http'')),
           (''reasoning'', Data (JStr ''Has MCP SDK and bin entry'')),
           (''config'', Data (JObj [(''identifier'', Data (JStr ''my-mcp-tool'')),
              (''customParams'', Data (JObj [(''mcp'', Data stdio_descriptor)]))]))]"

definition stdio_with_http :: "(string \<times> jsprop) list" where
  "stdio_with_http =
     [(''template'', Data (JStr ''mcp-stdio'')), (''reasoning'', Data (JStr ''Remote server'')),
      (''config'', Data (JObj [(''identifier'', Data (JStr ''remote-tool'')),
         (''customParams'', Data (JObj [(''mcp'', Data http_descriptor)]))]))]"

definition invalid_response :: jsval where
  "invalid_response = JObj [(''invalid'', Data (JBool True))]"

definition basic_response :: jsval where
  "basic_response =
     JObj [(''template'', Data (JStr ''basic'')), (''reasoning'', Data (JStr ''Simple utility'')),
           (''config'', Data (JObj [(''identifier'', Data (JStr ''util'')),
              (''meta'', Data (JObj [(''title'', Data (JStr ''Utility'')),
                                     (''description'', Data (JStr ''A utility''))]))]))]"

definition trapped_response :: jsval where
  "trapped_response = JObj [(''template'', Getter (OtherError ''trap''))]"

text \<open>
  Tools and collaborators for the pipeline. Every \<open>sample_tool\<close> is crypto-related and
  MCP-compatible. The analyzer \<open>fails_on bad\<close> throws for the tool with identifier \<open>bad\<close>
  and classifies every other tool as \<open>basic_decision\<close>; \<open>no_credentials\<close> throws the
  API-key error for every tool. The world counts the calls of the analyzer.
\<close>

definition sample_tool :: "string \<Rightarrow> DiscoveredTool" where
  "sample_tool i =
     \<lparr>tool_id = i, name = ''eth'', description = [], source = github, sourceUrl = [],
      hasMCPSupport = Some True, readme = None\<rparr>"

definition basic_decision :: TemplateDecision where
  "basic_decision =
     \<lparr>template = BASIC, reasoning = ''Simple utility'',
      config = StandardPluginConfig ''util'' None None None\<rparr>"

definition fails_on :: "string \<Rightarrow> DiscoveredTool \<Rightarrow> nat \<Rightarrow> (error + TemplateDecision) \<times> nat" where
  "fails_on bad t calls =
     (if tool_id t = bad then (Inl (AIResponseError p_openai None None), calls + 1)
      else (Inr basic_decision, calls + 1))"

definition no_credentials :: "DiscoveredTool \<Rightarrow> nat \<Rightarrow> (error + TemplateDecision) \<times> nat" where
  "no_credentials t calls = (Inl (APIKeyError p_openai None), calls + 1)"

definition github_finds ::
  "DiscoveredTool list \<Rightarrow> int \<Rightarrow> int \<Rightarrow> nat \<Rightarrow> (error + DiscoveredTool list) \<times> nat" where
  "github_finds found lmt age calls = (Inr found, calls)"

definition npm_finds_nothing :: "int \<Rightarrow> nat \<Rightarrow> (error + DiscoveredTool list) \<times> nat" where
  "npm_finds_nothing lmt calls = (Inr [], calls)"

definition no_quick_import :: "TemplateDecision \<Rightarrow> string option" where
  "no_quick_import d = None"

definition pipeline ::
  "DiscoveredTool list \<Rightarrow> (DiscoveredTool \<Rightarrow> nat \<Rightarrow> (error + TemplateDecision) \<times> nat) \<Rightarrow>
   nat ToolDiscovery" where
  "pipeline found analyzer =
     \<lparr>github_searchMCPServers = github_finds found, npm_searchMCPServers = npm_finds_nothing,
      ai_analyzeAndDecide = analyzer, ai_generateQuickImport = no_quick_import\<rparr>"

definition basic_result :: "string \<Rightarrow> DiscoveryResult" where
  "basic_result i =
     \<lparr>tool = sample_tool i, decision = basic_decision,
      generated_pluginConfig = config basic_decision\<rparr>"

definition five_tools :: "DiscoveredTool list" where
  "five_tools = map sample_tool [''t1'', ''t2'', ''t3'', ''t4'', ''t5'']"

definition four_tools :: "DiscoveredTool list" where
  "four_tools = map sample_tool [''t1'', ''t2'', ''t4'', ''t5'']"

definition from_github :: DiscoveryOptions where
  "from_github =
     \<lparr>sources = Some [github], limit = None, dryRun = None, outputDir = None,
      maxAgeMonths = None\<rparr>"

definition dry_run_options :: DiscoveryOptions where
  "dry_run_options =
     \<lparr>sources = Some [github], limit = None, dryRun = Some True, outputDir = None,
      maxAgeMonths = None\<rparr>"

definition github_twice :: DiscoveryOptions where
  "github_twice =
     \<lparr>sources = Some [github, github], limit = None, dryRun = None, outputDir = None,
      maxAgeMonths = None\<rparr>"

section \<open>Rounding to the doubles\<close>

text \<open>
  Rounding leaves a whole number unchanged, it is monotone on the numbers from 0 on, and it
  is exact on a double multiplied by a power of two.
\<close>

lemma nearest_even_of_int [simp]: "nearest_even (of_int i) = i"
  by (simp add: nearest_even_def)

lemma nearest_even_mono:
  assumes "s \<le> t"
  shows "nearest_even s \<le> nearest_even t"
proof -
  have f: "\<lfloor>s\<rfloor> \<le> \<lfloor>t\<rfloor>" using assms by (rule floor_mono)
  show ?thesis
  proof (cases "\<lfloor>s\<rfloor> = \<lfloor>t\<rfloor>")
    case True
    with assms show ?thesis by (auto simp: nearest_even_def)
  next
    case False
    with f have "\<lfloor>s\<rfloor> + 1 \<le> \<lfloor>t\<rfloor>" by simp
    moreover have "nearest_even s \<le> \<lfloor>s\<rfloor> + 1" "\<lfloor>t\<rfloor> \<le> nearest_even t"
      by (simp_all add: nearest_even_def)
    ultimately show ?thesis by linarith
  qed
qed

lemma ulp_pos [simp]: "0 < ulp x"
  by (simp add: ulp_def)

lemma ulp_nonneg [simp]: "0 \<le> ulp x"
  by (simp add: ulp_def)

lemma ulp_neq0 [simp]: "ulp x \<noteq> 0"
  by (simp add: ulp_def)




lemma round_double_exact:
  assumes "x / ulp x = of_int i"
  shows "round_double x = x"
proof (cases "x = 0")
  case True
  then show ?thesis by (simp add: round_double_def)
next
  case False
  have "ulp x * of_int (nearest_even (x / ulp x)) = ulp x * (x / ulp x)"
    unfolding assms by simp
  also have "\<dots> = x"
    using ulp_pos [of x] by simp
  finally show ?thesis
    using False by (simp add: round_double_def)
qed


lemma ulp_times_52: "ulp x * 2 powr 52 = 2 powr (real_of_int (binade x))"
proof -
  have "ulp x * 2 powr 52 = 2 powr (real_of_int (binade x) - 52 + 52)"
    unfolding ulp_def by (rule powr_add [symmetric])
  also have "real_of_int (binade x) - 52 + 52 = real_of_int (binade x)"
    by simp
  finally show ?thesis .
qed



lemma round_double_nonneg:
  assumes "0 \<le> x"
  shows "0 \<le> round_double x"
proof (cases "x = 0")
  case True
  then show ?thesis by (simp add: round_double_def)
next
  case False
  have "0 \<le> x / ulp x" using assms by (intro divide_nonneg_nonneg) simp_all
  then have "nearest_even (of_int 0) \<le> nearest_even (x / ulp x)"
    by (intro nearest_even_mono) simp
  then have "0 \<le> nearest_even (x / ulp x)"
    by (simp only: nearest_even_of_int)
  then show ?thesis
    using False by (simp add: round_double_def)
qed


lemma powr_of_nonneg_int:
  assumes "0 \<le> d"
  shows "(2::real) powr real_of_int d = of_int (2 ^ nat d)"
  using assms by (simp add: powr_real_of_int)

lemma round_double_scaled:
  assumes "x / ulp x = of_int n * 2 powr real_of_int d" and "0 \<le> d"
  shows "round_double x = x"
proof -
  have "x / ulp x = of_int (n * 2 ^ nat d)"
    unfolding assms(1) powr_of_nonneg_int [OF assms(2)] by simp
  then show ?thesis
    by (rule round_double_exact)
qed

lemma binade_times_pow2:
  assumes "0 < b"
  shows "binade (b * 2 ^ k) = max (\<lfloor>log 2 b\<rfloor> + int k) (- 1022)"
proof -
  have "log 2 (b * 2 ^ k) = log 2 b + real k"
    using assms by (simp add: log_mult log_nat_power)
  also have "\<dots> = log 2 b + real_of_int (int k)"
    by simp
  finally have "\<lfloor>log 2 (b * 2 ^ k)\<rfloor> = \<lfloor>log 2 b\<rfloor> + int k"
    by (simp only: floor_add_int)
  moreover have "\<bar>b * 2 ^ k\<bar> = b * 2 ^ k"
    using assms by simp
  ultimately show ?thesis
    by (simp add: binade_def)
qed

lemma round_double_times_pow2:
  assumes "0 \<le> b" and "round_double b = b"
  shows "round_double (b * 2 ^ k) = b * 2 ^ k"
proof (cases "b = 0")
  case True
  then show ?thesis by (simp add: round_double_def)
next
  case False
  with assms(1) have pos: "0 < b" by simp
  define n where "n = nearest_even (b / ulp b)"
  define d where "d = binade b + int k - binade (b * 2 ^ k)"
  have "b = ulp b * of_int n"
    using assms(2) False by (simp add: round_double_def n_def)
  then have q: "b / ulp b = of_int n"
    by (metis nonzero_mult_div_cancel_left ulp_neq0)
  have "binade b = max \<lfloor>log 2 b\<rfloor> (- 1022)"
    using pos by (simp add: binade_def)
  then have d: "0 \<le> d"
    unfolding d_def binade_times_pow2 [OF pos] by linarith
  have "real_of_int (binade (b * 2 ^ k)) - 52 + real_of_int d
        = (real_of_int (binade b) - 52) + real k"
    by (simp add: d_def)
  then have "(2::real) powr (real_of_int (binade (b * 2 ^ k)) - 52 + real_of_int d)
        = 2 powr ((real_of_int (binade b) - 52) + real k)"
    by (rule arg_cong)
  then have "ulp (b * 2 ^ k) * 2 powr real_of_int d = ulp b * 2 powr real k"
    unfolding ulp_def by (simp only: powr_add)
  then have u: "ulp (b * 2 ^ k) * 2 powr real_of_int d = ulp b * 2 ^ k"
    by (simp add: powr_realpow)
  have "b * 2 ^ k = (ulp b * of_int n) * 2 ^ k"
    using q by (metis \<open>b = ulp b * of_int n\<close>)
  also have "\<dots> = of_int n * (ulp b * 2 ^ k)"
    by simp
  also have "\<dots> = of_int n * (ulp (b * 2 ^ k) * 2 powr real_of_int d)"
    unfolding u ..
  finally have "b * 2 ^ k / ulp (b * 2 ^ k) = of_int n * 2 powr real_of_int d"
    by (simp add: field_simps)
  then show ?thesis
    using d by (rule round_double_scaled)
qed

lemma round_double_1 [simp]: "round_double 1 = 1"
proof -
  have "binade 1 = 0" by (simp add: binade_def)
  with ulp_times_52 [of 1] have "ulp 1 * 2 powr 52 = 1" by simp
  then have "1 = ulp 1 * real_of_int (2 ^ 52)" by simp
  then have "1 / ulp 1 = of_int (2 ^ 52)"
    by (metis nonzero_mult_div_cancel_left ulp_neq0)
  then show ?thesis by (rule round_double_exact)
qed

lemma round_double_0 [simp]: "round_double 0 = 0"
  by (simp add: round_double_def)

lemma round_double_pow2: "round_double (2 ^ k) = 2 ^ k"
  using round_double_times_pow2 [of 1 k] by simp

lemma round_double_of_int:
  assumes "\<bar>i\<bar> < 2 ^ 53"
  shows "round_double (of_int i) = of_int i"
proof (cases "i = 0")
  case True
  then show ?thesis by simp
next
  case False
  define d where "d = 52 - binade (of_int i)"
  have "real_of_int \<bar>i\<bar> < real_of_int (2 ^ 53)"
    using assms by (simp only: of_int_less_iff)
  then have "real_of_int \<bar>i\<bar> < 2 powr 53"
    by simp
  then have "log 2 \<bar>real_of_int i\<bar> < 53"
    using False by (simp add: log_less_iff)
  then have "\<lfloor>log 2 \<bar>real_of_int i\<bar>\<rfloor> < 53"
    by (simp add: floor_less_iff)
  then have d: "0 \<le> d"
    by (simp add: d_def binade_def)
  have "real_of_int (binade (of_int i)) - 52 + real_of_int d = 0"
    by (simp add: d_def)
  then have "(2::real) powr (real_of_int (binade (of_int i)) - 52 + real_of_int d) = 2 powr 0"
    by (rule arg_cong)
  then have "ulp (of_int i) * 2 powr real_of_int d = 1"
    unfolding ulp_def by (simp only: powr_add powr_zero_eq_one) simp
  then have "real_of_int i = of_int i * (ulp (of_int i) * 2 powr real_of_int d)"
    by simp
  then have "real_of_int i / ulp (of_int i) = of_int i * 2 powr real_of_int d"
    by (simp add: field_simps)
  then show ?thesis
    using d by (rule round_double_scaled)
qed

lemma round_double_numeral [simp]:
  "numeral k < (2::int) ^ 53 \<Longrightarrow> round_double (numeral k) = numeral k"
  using round_double_of_int [of "numeral k"] by simp





lemma to_number_nonneg:
  assumes "0 \<le> x"
  shows "to_number x = (if 2 ^ 1024 \<le> round_double x then PosInf else Num (round_double x))"
proof -
  have "0 \<le> round_double x"
    using assms by (rule round_double_nonneg)
  moreover have "- ((2::real) ^ 1024) < 0"
    by simp
  ultimately have "\<not> round_double x \<le> - (2 ^ 1024)"
    by linarith
  then show ?thesis
    by (simp add: to_number_def)
qed


lemma Math_pow2_eval: "Math_pow2 a = (if 1024 \<le> a then PosInf else Num (2 ^ a))"
proof (cases "1024 \<le> a")
  case True
  then have "(2::real) ^ 1024 \<le> 2 ^ a"
    by (intro power_increasing) simp_all
  then show ?thesis
    using True by (simp add: Math_pow2_def to_number_nonneg round_double_pow2)
next
  case False
  then have "(2::real) ^ a < 2 ^ 1024"
    by (intro power_strict_increasing) simp_all
  then show ?thesis
    using False by (simp add: Math_pow2_def to_number_nonneg round_double_pow2)
qed

lemma num_le_NaN [simp]: "num_le x NaN = False"
  by (cases x) simp_all

section \<open>The retry layer\<close>

subsection \<open>Retryable errors\<close>

lemma isRetryableError_iff:
  "isRetryableError e \<longleftrightarrow>
     (\<exists>p retryAfter cause. e = RateLimitError p retryAfter cause)
     \<or> (\<exists>url status cause. e = NetworkError url status cause)"
  by (cases e) simp_all

lemma retryable_message: "isRetryableError e \<Longrightarrow> \<exists>m. message e = Inr m"
  by (cases e) simp_all

subsection \<open>One step of the loop\<close>


lemma withRetry_loop_fatal:
  assumes "num_le (Num (real attempt)) (opts_maxRetries options)" and "fn w = (Inl e, w1)"
    and "\<not> isRetryableError e" and "message e = Inr m"
  shows "withRetry_loop fn options random attempt lastError w
         = Some \<lparr>outcome = Inl e, events = [Invoked], world = w1\<rparr>"
  by (subst withRetry_loop.simps) (simp add: assms)

lemma withRetry_loop_type_error:
  assumes "num_le (Num (real attempt)) (opts_maxRetries options)" and "fn w = (Inl e, w1)"
    and "\<not> isRetryableError e" and "message e = Inl typeError"
  shows "withRetry_loop fn options random attempt lastError w
         = Some \<lparr>outcome = Inl typeError, events = [Invoked], world = w1\<rparr>"
  by (subst withRetry_loop.simps) (simp add: assms)

lemma withRetry_loop_not_entered:
  assumes "\<not> num_le (Num (real attempt)) (opts_maxRetries options)"
  shows "withRetry_loop fn options random attempt lastError w
         = Some \<lparr>outcome = Inl (case lastError of None \<Rightarrow> ThrownUndefined | Some e \<Rightarrow> e),
                  events = [], world = w\<rparr>"
  by (subst withRetry_loop.simps) (simp add: assms)

lemma withRetry_loop_last:
  assumes "opts_maxRetries options = Num (real attempt)" and "fn w = (Inl e, w1)"
    and "isRetryableError e"
  shows "withRetry_loop fn options random attempt lastError w
         = Some \<lparr>outcome = Inl e, events = [Invoked], world = w1\<rparr>"
  by (subst withRetry_loop.simps) (simp add: assms)

lemma withRetry_loop_retry:
  assumes "opts_maxRetries options = Num (real n)" and "attempt < n" and "n \<le> 2 ^ 53"
    and "fn w = (Inl e, w1)" and "isRetryableError e"
    and "(case onRetry options of
            None \<Rightarrow> (None, w1)
          | Some callback \<Rightarrow>
              callback (attempt + 1) e
                (retryDelay e (random attempt) attempt
                   (opts_baseDelayMs options) (opts_maxDelayMs options)) w1) = (None, w2)"
  shows "withRetry_loop fn options random attempt lastError w
         = map_option
             (\<lambda>rest. rest\<lparr>events := Invoked # Slept (retryDelay e (random attempt) attempt
                          (opts_baseDelayMs options) (opts_maxDelayMs options)) # events rest\<rparr>)
             (withRetry_loop fn options random (attempt + 1) (Some e) w2)"
proof -
  have inc: "increment attempt = attempt + 1"
    using assms(2,3) by (simp add: increment_def)
  have "num_le (Num (real attempt)) (opts_maxRetries options)"
    and "\<not> num_le (opts_maxRetries options) (Num (real attempt))"
    using assms(1,2) by simp_all
  then show ?thesis
    apply (subst withRetry_loop.simps)
    unfolding inc
    by (simp add: assms(4,5,6) Let_def map_option_case split: option.splits)
qed

subsection \<open>An operation that never stops failing\<close>

lemma withRetry_loop_exhaust:
  assumes maxR: "opts_maxRetries options = Num (real n)" and safe: "n \<le> 2 ^ 53"
    and returns: "\<forall>callback a e d w. onRetry options = Some callback
                    \<longrightarrow> fst (callback a e d w) = None"
    and fails: "\<forall>w. \<exists>e. fst (fn w) = Inl e \<and> isRetryableError e"
    and le: "attempt \<le> n"
  shows "\<exists>r. withRetry_loop fn options random attempt lastError w = Some r
           \<and> invocations r = n + 1 - attempt
           \<and> length (sleeps r) = n - attempt
           \<and> (\<exists>w'. fn w' = (outcome r, world r))
           \<and> (\<exists>e. outcome r = Inl e \<and> isRetryableError e)"
  using le
proof (induction "n - attempt" arbitrary: attempt lastError w)
  case 0
  obtain e where e: "fst (fn w) = Inl e" "isRetryableError e"
    using fails by blast
  obtain w1 where fw: "fn w = (Inl e, w1)"
    using e(1) by (cases "fn w") auto
  from 0 have "opts_maxRetries options = Num (real attempt)"
    using maxR by simp
  then have "withRetry_loop fn options random attempt lastError w
             = Some \<lparr>outcome = Inl e, events = [Invoked], world = w1\<rparr>"
    using fw e(2) by (rule withRetry_loop_last)
  with fw e(2) 0 show ?case
    by (auto simp: invocations_def sleeps_def)
next
  case (Suc k)
  obtain e where e: "fst (fn w) = Inl e" "isRetryableError e"
    using fails by blast
  obtain w1 where fw: "fn w = (Inl e, w1)"
    using e(1) by (cases "fn w") auto
  from Suc have lt: "attempt < n" by simp
  define delayMs where "delayMs = retryDelay e (random attempt) attempt
                                (opts_baseDelayMs options) (opts_maxDelayMs options)"
  obtain w2 where cb: "(case onRetry options of
            None \<Rightarrow> (None, w1)
          | Some callback \<Rightarrow> callback (attempt + 1) e delayMs w1) = (None, w2)"
  proof (cases "onRetry options")
    case None
    then show ?thesis using that by simp
  next
    case (Some callback)
    with returns have "fst (callback (attempt + 1) e delayMs w1) = None" by blast
    then show ?thesis using that Some by (cases "callback (attempt + 1) e delayMs w1") auto
  qed
  have k: "k = n - (attempt + 1)" and le': "attempt + 1 \<le> n"
    using Suc by simp_all
  from Suc.hyps(1) [OF k le', of "Some e" w2]
  obtain r where r: "withRetry_loop fn options random (attempt + 1) (Some e) w2 = Some r"
    "invocations r = n + 1 - (attempt + 1)" "length (sleeps r) = n - (attempt + 1)"
    "\<exists>w'. fn w' = (outcome r, world r)" "\<exists>e. outcome r = Inl e \<and> isRetryableError e"
    by blast
  have "withRetry_loop fn options random attempt lastError w
        = Some (r\<lparr>events := Invoked # Slept delayMs # events r\<rparr>)"
    using withRetry_loop_retry [of options n attempt fn w e w1 random w2 lastError,
            OF maxR lt safe fw e(2) cb [unfolded delayMs_def]] r(1)
    by (simp add: delayMs_def)
  with r(2-5) lt show ?case
    by (auto simp: invocations_def sleeps_def)
qed

lemmas number_eval = to_number_def Math_pow2_eval calculateBackoff_def

lemmas retry_eval =
  withRetry_def withRetry_loop.simps opts_maxRetries_def opts_baseDelayMs_def opts_maxDelayMs_def
  DEFAULT_maxRetries_def DEFAULT_baseDelayMs_def DEFAULT_maxDelayMs_def increment_def number_eval

lemma run_always_503:
  "withRetry always_503 two_retries no_jitter 0
   = Some \<lparr>outcome = Inl (NetworkError ''https://api.github.com/search'' (Some 503) None),
            events = [Invoked, Slept (Num 1000), Invoked, Slept (Num 2000), Invoked],
            world = 3\<rparr>"
  by (simp add: retry_eval always_503_def two_retries_def no_jitter_def)

subsection \<open>Exhausted retries\<close>

text \<open>
  C3. Let \<open>maxRetries\<close> be a whole number \<open>n\<close> from 0 to \<open>2^53\<close> (3 when the policy has no
  such key), let the callback of the policy, if there is one, return normally, and let
  every call of the operation throw a \<open>NetworkError\<close> or a \<open>RateLimitError\<close>. Then
  \<open>withRetry\<close> returns control: it calls the operation exactly \<open>n + 1\<close> times, sleeps
  \<open>n\<close> times, and throws; the thrown value and the final world are exactly what one call
  of the operation, the last one, produced. The error is thrown as it is; nothing is
  attached to it.
\<close>

theorem withRetry_exhausted:
  assumes "opts_maxRetries options = Num (real n)" and "n \<le> 2 ^ 53"
    and "\<forall>callback a e d w. onRetry options = Some callback \<longrightarrow> fst (callback a e d w) = None"
    and "\<forall>w. (\<exists>url status cause. fst (fn w) = Inl (NetworkError url status cause))
            \<or> (\<exists>p retryAfter cause. fst (fn w) = Inl (RateLimitError p retryAfter cause))"
  shows "\<exists>r. withRetry fn options random w = Some r
           \<and> invocations r = n + 1
           \<and> length (sleeps r) = n
           \<and> (\<exists>w'. fn w' = (outcome r, world r))
           \<and> (\<exists>e. outcome r = Inl e \<and> isRetryableError e)"
proof -
  have "\<forall>w. \<exists>e. fst (fn w) = Inl e \<and> isRetryableError e"
    using assms(4) by (metis isRetryableError_iff)
  from withRetry_loop_exhaust [OF assms(1,2,3) this, of 0 random None w] show ?thesis
    by (simp add: withRetry_def)
qed

text \<open>
  An operation that always answers 503, with two retries: three calls, two sleeps, and an
  error of the operation at the end.
\<close>

theorem withRetry_exhausted_witness:
  "opts_maxRetries two_retries = Num (real 2)
   \<and> (\<exists>r. withRetry always_503 two_retries no_jitter 0 = Some r
          \<and> invocations r = 2 + 1
          \<and> length (sleeps r) = 2
          \<and> (\<exists>w'. always_503 w' = (outcome r, world r))
          \<and> (\<exists>e. outcome r = Inl e \<and> isRetryableError e))"
proof -
  have m: "opts_maxRetries two_retries = Num (real 2)"
    by (simp add: opts_maxRetries_def two_retries_def)
  have s: "(2::nat) \<le> 2 ^ 53"
    by simp
  have c: "\<forall>callback a e d w. onRetry two_retries = Some callback
              \<longrightarrow> fst (callback a e d w) = None"
    by (simp add: two_retries_def)
  have f: "\<forall>w. (\<exists>url status cause. fst (always_503 w) = Inl (NetworkError url status cause))
            \<or> (\<exists>p retryAfter cause. fst (always_503 w) = Inl (RateLimitError p retryAfter cause))"
    by (simp add: always_503_def)
  from withRetry_exhausted [OF m s c f, of no_jitter 0] m show ?thesis
    by simp
qed

text \<open>
  The run of that operation: calls and sleeps of 1000 and 2000 ms, and the thrown value is
  the value the third call threw. Its message and code are those of the \<open>NetworkError\<close>,
  with no mention of exhausted retries.
\<close>

theorem withRetry_exhausted_not_annotated:
  "withRetry always_503 two_retries no_jitter 0
     = Some \<lparr>outcome = fst (always_503 2),
              events = [Invoked, Slept (Num 1000), Invoked, Slept (Num 2000), Invoked],
              world = 3\<rparr>
   \<and> fst (always_503 2) = Inl (NetworkError ''https://api.github.com/search'' (Some 503) None)
   \<and> message (NetworkError ''https://api.github.com/search'' (Some 503) None)
       = Inr ''Network request failed: https://api.github.com/search (status: 503)''
   \<and> code (NetworkError ''https://api.github.com/search'' (Some 503) None) = Some ''NETWORK_ERROR''"
  using run_always_503 by (simp add: always_503_def show_int_def)

subsection \<open>Errors that are not retried\<close>

text \<open>
  With \<open>maxRetries: -1\<close>, and with \<open>maxRetries: undefined\<close>, the loop is not entered: the
  operation, which would throw an \<open>APIKeyError\<close>, is not called at all, and what
  \<open>withRetry\<close> throws is \<open>undefined\<close>, the initial value of \<open>lastError\<close>.
\<close>

theorem withRetry_never_invoked:
  "withRetry missing_key negative_retries no_jitter 0
     = Some \<lparr>outcome = Inl ThrownUndefined, events = [], world = 0\<rparr>
   \<and> withRetry missing_key undefined_retries no_jitter 0
     = Some \<lparr>outcome = Inl ThrownUndefined, events = [], world = 0\<rparr>"
  by (simp add: retry_eval negative_retries_def undefined_retries_def)

text \<open>
  An operation that throws \<open>undefined\<close> (or \<open>null\<close>) is called once as well, but what
  leaves \<open>withRetry\<close> is the \<open>TypeError\<close> of reading \<open>lastError.message\<close>.
\<close>

lemma withRetry_throws_undefined:
  "withRetry throws_undefined two_retries no_jitter 0
     = Some \<lparr>outcome = Inl (TypeError ''Cannot read properties of undefined''),
              events = [Invoked], world = 1\<rparr>"
  by (simp add: retry_eval throws_undefined_def two_retries_def)

text \<open>
  C4. Let the policy be one under which the loop is entered (\<open>0 <= maxRetries\<close>: any number
  from 0 on, infinity included, or no such key), and let the first call of the operation
  throw an error object that is neither a \<open>RateLimitError\<close> nor a \<open>NetworkError\<close>. Then the
  error is not retryable, and \<open>withRetry\<close> throws that very error after this single call:
  one invocation, no sleep, no callback, and the world is the one the call left.
\<close>

theorem withRetry_nonretryable_once:
  assumes "num_le (Num 0) (opts_maxRetries options)"
    and "fn w = (Inl e, w1)"
    and "\<forall>p retryAfter cause. e \<noteq> RateLimitError p retryAfter cause"
    and "\<forall>url status cause. e \<noteq> NetworkError url status cause"
    and "e \<noteq> ThrownUndefined" and "e \<noteq> ThrownNull"
  shows "\<not> isRetryableError e
       \<and> withRetry fn options random w
           = Some \<lparr>outcome = Inl e, events = [Invoked], world = w1\<rparr>"
proof -
  have fatal: "\<not> isRetryableError e"
    using assms(3,4) by (simp add: isRetryableError_iff)
  obtain m where m: "message e = Inr m"
    using assms(5,6) by (cases e) simp_all
  have "withRetry fn options random w
        = Some \<lparr>outcome = Inl e, events = [Invoked], world = w1\<rparr>"
    unfolding withRetry_def
    using assms(1,2) fatal m by (intro withRetry_loop_fatal) simp_all
  with fatal show ?thesis
    by simp
qed

text \<open>A missing API key under the policy of two retries: one call, the \<open>APIKeyError\<close> comes
  back.\<close>

theorem withRetry_nonretryable_once_witness:
  "num_le (Num 0) (opts_maxRetries two_retries)
   \<and> missing_key 0 = (Inl (APIKeyError p_openai None), 1)
   \<and> \<not> isRetryableError (APIKeyError p_openai None)
   \<and> withRetry missing_key two_retries no_jitter 0
       = Some \<lparr>outcome = Inl (APIKeyError p_openai None), events = [Invoked], world = 1\<rparr>"
proof -
  have m: "num_le (Num 0) (opts_maxRetries two_retries)"
    by (simp add: opts_maxRetries_def two_retries_def)
  have f: "missing_key 0 = (Inl (APIKeyError p_openai None), 1)"
    by (simp add: missing_key_def)
  from withRetry_nonretryable_once
         [of two_retries missing_key 0 "APIKeyError p_openai None" 1 no_jitter, OF m f] m f
  show ?thesis
    by simp
qed

subsection \<open>Backoff\<close>







subsection \<open>Rate limits seen by the fetch wrapper\<close>











section \<open>The schemas\<close>

lemmas schema_eval =
  parseAIResponse_def safeParseAIResponse_def zod_parse_def zod_safeParse_def
  AIAnalysisResponseSchema_def configSchema_def MCPPluginConfigSchema_def
  StandardPluginConfigSchema_def customParamsSchema_def MCPConnectionSchema_def
  MCPHttpConfigSchema_def MCPStdioConfigSchema_def MCPAuthConfigSchema_def PluginMetaSchema_def
  zStringRecord_def zOptional_def zUrl_def zLiteral_def field_def getProp_def template_names_def

text \<open>
  Template \<open>mcp-http\<close> with a stdio descriptor in \<open>customParams.mcp\<close>:
  \<open>parseAIResponse\<close> does not throw, it returns the decision with that template and that
  descriptor.
\<close>

theorem parseAIResponse_accepts_mismatch:
  "parseAIResponse https_only http_with_stdio
   = Inr \<lparr>template = MCP_HTTP, reasoning = ''Has MCP SDK and bin entry'',
          config = MCPPluginConfig ''my-mcp-tool''
                     (MCPStdio ''npx'' (Some [''-y'', ''my-mcp-tool'']) None) None None\<rparr>"
  by (simp add: schema_eval http_with_stdio_def stdio_descriptor_def)

text \<open>
  C1. The template, the reasoning and the config are validated one by one: an object whose
  template is \<open>mcp-http\<close> or \<open>mcp-stdio\<close>, whose reasoning is a string and whose config
  is a valid MCP config is accepted with the connection descriptor of the config, of
  either variant. (The object is one whose properties \<open>then\<close>, \<open>template\<close>, \<open>reasoning\<close>
  and \<open>config\<close> can be read, as those of every object built by \<open>JSON.parse\<close> can.)
\<close>

theorem parseAIResponse_template_independent:
  assumes "\<forall>e. getProp props ''then'' \<noteq> Inl e"
    and "getProp props ''template'' = Inr (JStr t)"
    and "t = ''mcp-http'' \<or> t = ''mcp-stdio''"
    and "getProp props ''reasoning'' = Inr (JStr r)"
    and "getProp props ''config'' = Inr cfg"
    and "MCPPluginConfigSchema isUrl cfg
         = Valid (MCPPluginConfig identifier connection descr avatar)"
  shows "parseAIResponse isUrl (JObj props)
         = Inr \<lparr>template = (if t = ''mcp-http'' then MCP_HTTP else MCP_STDIO), reasoning = r,
                config = MCPPluginConfig identifier connection descr avatar\<rparr>"
proof -
  obtain th where o: "getProp props ''then'' = Inr th"
    using assms(1) by (cases "getProp props ''then''") auto
  have t: "field props ''template'' PluginTemplateSchema
           = Valid (if t = ''mcp-http'' then MCP_HTTP else MCP_STDIO)"
    using assms(2,3) by (auto simp: field_def template_names_def)
  have r: "field props ''reasoning'' zString = Valid r"
    using assms(4) by (simp add: field_def)
  have c: "field props ''config'' (configSchema isUrl)
           = Valid (MCPPluginConfig identifier connection descr avatar)"
    using assms(5,6) by (simp add: field_def configSchema_def)
  show ?thesis
    by (simp add: parseAIResponse_def zod_parse_def zod_safeParse_def
          AIAnalysisResponseSchema_def o t r c)
qed

text \<open>Template \<open>mcp-stdio\<close> with an HTTP descriptor.\<close>

theorem parseAIResponse_template_independent_witness:
  "parseAIResponse https_only (JObj stdio_with_http)
   = Inr \<lparr>template = MCP_STDIO, reasoning = ''Remote server'',
          config = MCPPluginConfig ''remote-tool''
                     (MCPHttp ''https://example.com/mcp'' None None) None None\<rparr>"
proof -
  have "\<forall>e. getProp stdio_with_http ''then'' \<noteq> Inl e"
    and "getProp stdio_with_http ''template'' = Inr (JStr ''mcp-stdio'')"
    and "''mcp-stdio'' = ''mcp-http'' \<or> ''mcp-stdio'' = ''mcp-stdio''"
    and "getProp stdio_with_http ''reasoning'' = Inr (JStr ''Remote server'')"
    and "getProp stdio_with_http ''config''
         = Inr (JObj [(''identifier'', Data (JStr ''remote-tool'')),
                      (''customParams'', Data (JObj [(''mcp'', Data http_descriptor)]))])"
    and "MCPPluginConfigSchema https_only
           (JObj [(''identifier'', Data (JStr ''remote-tool'')),
                  (''customParams'', Data (JObj [(''mcp'', Data http_descriptor)]))])
         = Valid (MCPPluginConfig ''remote-tool'' (MCPHttp ''https://example.com/mcp'' None None)
                    None None)"
    by (simp_all add: schema_eval stdio_with_http_def http_descriptor_def https_only_def)
  from parseAIResponse_template_independent [OF this] show ?thesis by simp
qed

subsection \<open>Plain data makes no schema throw\<close>

lemma threw_map_parsed [simp]: "threw (map_parsed f r) = threw r"
  by (cases r) simp_all

lemma threw_both [simp]: "threw (both l r) = (threw l \<or> threw r)"
  by (cases l; cases r) simp_all

lemma threw_bind_parsed: "\<not> threw r \<Longrightarrow> (\<And>a. \<not> threw (f a)) \<Longrightarrow> \<not> threw (bind_parsed r f)"
  by (cases r) simp_all

lemma threw_orElse: "\<not> threw l \<Longrightarrow> \<not> threw r \<Longrightarrow> \<not> threw (orElse l r)"
  by (cases l) simp_all

lemma threw_all_valid: "threw (all_valid rs) = list_ex threw rs"
  by (induction rs) simp_all

lemma plain_getProp:
  assumes "plain (JObj props)"
  shows "\<exists>v. getProp props key = Inr v \<and> plain v"
proof (cases "map_of props key")
  case None
  then show ?thesis by (simp add: getProp_def)
next
  case (Some p)
  then have "(key, p) \<in> set props" by (rule map_of_SomeD)
  with assms have "plain_prop p" by (auto simp: list_all_iff)
  with Some show ?thesis by (cases p) (simp_all add: getProp_def)
qed

lemma plain_reject: "plain v \<Longrightarrow> \<not> threw (reject v :: 'a parsed)"
proof (cases v)
  case (JObj props)
  assume "plain v"
  with JObj plain_getProp [of props "''then''"] show ?thesis by auto
qed simp_all

lemma plain_asObject: "plain v \<Longrightarrow> \<not> threw (asObject v)"
proof (cases v)
  case (JObj props)
  assume "plain v"
  with JObj plain_getProp [of props "''then''"] show ?thesis by auto
qed simp_all

lemma asObject_Valid: "asObject v = Valid props \<Longrightarrow> v = JObj props"
  by (cases v) (auto split: sum.splits)

lemma plain_field:
  assumes "plain (JObj props)" and "\<And>v. plain v \<Longrightarrow> \<not> threw (schema v)"
  shows "\<not> threw (field props key schema)"
  using plain_getProp [OF assms(1), of key] assms(2) by (auto simp: field_def)

lemma plain_object:
  assumes "plain v" and "\<And>props. plain (JObj props) \<Longrightarrow> \<not> threw (cont props)"
  shows "\<not> threw (bind_parsed (asObject v) cont)"
proof (cases v)
  case (JObj props)
  with assms(1) have p: "plain (JObj props)" by simp
  from plain_getProp [OF p, of "''then''"] have "asObject v = Valid props"
    using JObj by auto
  with assms(2) [OF p] show ?thesis by simp
qed simp_all

lemma plain_zString: "plain v \<Longrightarrow> \<not> threw (zString v)"
  using plain_reject [of v] by (cases v) simp_all

lemma plain_zUrl: "plain v \<Longrightarrow> \<not> threw (zUrl isUrl v)"
  unfolding zUrl_def by (rule threw_bind_parsed) (simp_all add: plain_zString)

lemma plain_zLiteral: "plain v \<Longrightarrow> \<not> threw (zLiteral lit v)"
  by (simp add: zLiteral_def plain_reject)

lemma plain_zOptional:
  "plain v \<Longrightarrow> (\<And>x. plain x \<Longrightarrow> \<not> threw (schema x)) \<Longrightarrow> \<not> threw (zOptional schema v)"
  by (simp add: zOptional_def)

lemma plain_zStringArray: "plain v \<Longrightarrow> \<not> threw (zStringArray v)"
proof (cases v)
  case (JArr items)
  assume "plain v"
  with JArr show ?thesis
    by (auto simp: threw_all_valid list_ex_iff list_all_iff plain_zString)
next
  case (JObj props)
  assume "plain v"
  then show ?thesis using JObj plain_reject [of v] by simp
qed simp_all

lemma plain_zStringRecord: "plain v \<Longrightarrow> \<not> threw (zStringRecord v)"
  unfolding zStringRecord_def
proof (rule plain_object)
  fix props
  assume p: "plain (JObj props)"
  have "\<not> threw (case readProp q of Inl e \<Rightarrow> Threw e
                  | Inr x \<Rightarrow> map_parsed (Pair key) (zString x))"
    if "(key, q) \<in> set props" for key q
  proof -
    from p that have "plain_prop q" by (auto simp: list_all_iff)
    then show ?thesis by (cases q) (simp_all add: plain_zString)
  qed
  then show "\<not> threw (all_valid (map (\<lambda>(key, p). case readProp p of
                                     Inl e \<Rightarrow> Threw e
                                   | Inr x \<Rightarrow> map_parsed (Pair key) (zString x)) props))"
    by (auto simp: threw_all_valid list_ex_iff)
qed

lemma plain_PluginTemplateSchema: "plain v \<Longrightarrow> \<not> threw (PluginTemplateSchema v)"
  using plain_reject [of v] by (cases v) (simp_all split: option.splits)

lemma plain_AuthTypeSchema: "plain v \<Longrightarrow> \<not> threw (AuthTypeSchema v)"
  using plain_reject [of v] by (cases v) (simp_all split: option.splits)

lemmas plain_leaf =
  plain_field plain_zOptional plain_zString plain_zUrl plain_zLiteral plain_zStringArray
  plain_zStringRecord plain_PluginTemplateSchema plain_AuthTypeSchema

lemma plain_MCPAuthConfigSchema: "plain v \<Longrightarrow> \<not> threw (MCPAuthConfigSchema v)"
  unfolding MCPAuthConfigSchema_def by (rule plain_object) (simp_all add: plain_leaf)

lemma plain_MCPHttpConfigSchema: "plain v \<Longrightarrow> \<not> threw (MCPHttpConfigSchema isUrl v)"
  unfolding MCPHttpConfigSchema_def
  by (rule plain_object) (simp_all add: plain_leaf plain_MCPAuthConfigSchema)

lemma plain_MCPStdioConfigSchema: "plain v \<Longrightarrow> \<not> threw (MCPStdioConfigSchema v)"
  unfolding MCPStdioConfigSchema_def by (rule plain_object) (simp_all add: plain_leaf)

lemma plain_MCPConnectionSchema:
  assumes "plain v"
  shows "\<not> threw (MCPConnectionSchema isUrl v)"
  unfolding MCPConnectionSchema_def
proof (rule plain_object [OF assms])
  fix props
  assume p: "plain (JObj props)"
  from plain_getProp [OF p, of "''type''"] obtain d where "getProp props ''type'' = Inr d"
    by auto
  then show "\<not> threw (case getProp props ''type'' of
                         Inl e \<Rightarrow> Threw e
                       | Inr discriminator \<Rightarrow>
                           if discriminator = JStr ''http'' then MCPHttpConfigSchema isUrl v
                           else if discriminator = JStr ''stdio'' then MCPStdioConfigSchema v
                           else Invalid)"
    using assms by (simp add: plain_MCPHttpConfigSchema plain_MCPStdioConfigSchema)
qed

lemma plain_PluginMetaSchema: "plain v \<Longrightarrow> \<not> threw (PluginMetaSchema v)"
  unfolding PluginMetaSchema_def by (rule plain_object) (simp_all add: plain_leaf)

lemma plain_customParamsSchema: "plain v \<Longrightarrow> \<not> threw (customParamsSchema isUrl v)"
  unfolding customParamsSchema_def
  by (rule plain_object) (simp_all add: plain_leaf plain_MCPConnectionSchema)

lemma plain_MCPPluginConfigSchema: "plain v \<Longrightarrow> \<not> threw (MCPPluginConfigSchema isUrl v)"
  unfolding MCPPluginConfigSchema_def
  by (rule plain_object) (simp_all add: plain_leaf plain_customParamsSchema)

lemma plain_StandardPluginConfigSchema: "plain v \<Longrightarrow> \<not> threw (StandardPluginConfigSchema v)"
  unfolding StandardPluginConfigSchema_def
  by (rule plain_object) (simp_all add: plain_leaf plain_PluginMetaSchema)

lemma plain_configSchema: "plain v \<Longrightarrow> \<not> threw (configSchema isUrl v)"
  unfolding configSchema_def
  by (rule threw_orElse) (simp_all add: plain_MCPPluginConfigSchema plain_StandardPluginConfigSchema)

lemma plain_AIAnalysisResponseSchema:
  "plain v \<Longrightarrow> \<not> threw (AIAnalysisResponseSchema isUrl v)"
  unfolding AIAnalysisResponseSchema_def
  by (rule plain_object) (simp_all add: plain_leaf plain_configSchema)

text \<open>
  C10. On plain data (a value as \<open>JSON.parse\<close> builds it, or \<open>undefined\<close>: no accessor
  property at any depth) \<open>safeParseAIResponse\<close> returns without throwing; it returns
  \<open>null\<close> exactly where \<open>parseAIResponse\<close> throws, what is thrown there is the
  \<open>ZodError\<close>, and otherwise it returns the decision \<open>parseAIResponse\<close> returns.
\<close>

theorem safeParseAIResponse_agrees:
  assumes "plain data"
  shows "(\<exists>r. safeParseAIResponse isUrl data = Inr r)
         \<and> (safeParseAIResponse isUrl data = Inr None
              \<longleftrightarrow> parseAIResponse isUrl data = Inl ZodError)
         \<and> (\<forall>e. parseAIResponse isUrl data = Inl e \<longrightarrow> e = ZodError)
         \<and> (\<forall>d. safeParseAIResponse isUrl data = Inr (Some d)
                \<longleftrightarrow> parseAIResponse isUrl data = Inr d)"
  using plain_AIAnalysisResponseSchema [OF assms, of isUrl]
  by (cases "AIAnalysisResponseSchema isUrl data")
     (auto simp: safeParseAIResponse_def parseAIResponse_def zod_parse_def zod_safeParse_def)

text \<open>An object without the required keys, and a valid \<open>basic\<close> decision.\<close>

theorem safeParseAIResponse_agrees_witness:
  "plain invalid_response \<and> plain basic_response
   \<and> safeParseAIResponse https_only invalid_response = Inr None
   \<and> parseAIResponse https_only invalid_response = Inl ZodError
   \<and> safeParseAIResponse https_only basic_response
       = Inr (Some \<lparr>template = BASIC, reasoning = ''Simple utility'',
               config = StandardPluginConfig ''util'' None None
                          (Some (PluginMeta ''Utility'' ''A utility'' None None None))\<rparr>)
   \<and> parseAIResponse https_only basic_response
       = Inr \<lparr>template = BASIC, reasoning = ''Simple utility'',
              config = StandardPluginConfig ''util'' None None
                         (Some (PluginMeta ''Utility'' ''A utility'' None None None))\<rparr>"
proof -
  have p1: "plain invalid_response" by (simp add: invalid_response_def)
  have p2: "plain basic_response" by (simp add: basic_response_def)
  have "safeParseAIResponse https_only invalid_response = Inr None"
    by (simp add: schema_eval invalid_response_def)
  moreover have "safeParseAIResponse https_only basic_response
       = Inr (Some \<lparr>template = BASIC, reasoning = ''Simple utility'',
               config = StandardPluginConfig ''util'' None None
                          (Some (PluginMeta ''Utility'' ''A utility'' None None None))\<rparr>)"
    by (simp add: schema_eval basic_response_def)
  ultimately show ?thesis
    using safeParseAIResponse_agrees [OF p1, of https_only]
      safeParseAIResponse_agrees [OF p2, of https_only] p1 p2
    by simp
qed

text \<open>
  An object whose property \<open>template\<close> is an accessor that throws: the error of the
  getter leaves \<open>safeParseAIResponse\<close>, as it leaves \<open>parseAIResponse\<close>.
\<close>

theorem safeParseAIResponse_raises:
  "safeParseAIResponse https_only trapped_response = Inl (OtherError ''trap'')
   \<and> parseAIResponse https_only trapped_response = Inl (OtherError ''trap'')"
  by (simp add: schema_eval trapped_response_def)

section \<open>The pipeline\<close>

subsection \<open>The two loops\<close>

lemma failures_append: "failures (xs @ ys) = failures xs @ failures ys"
  by (induction xs rule: failures.induct) simp_all

lemma collect_no_failures:
  "collect this srcs lmt age w = (tools, lines, w1) \<Longrightarrow> failures lines = []"
proof (induction srcs arbitrary: w tools lines w1)
  case Nil
  then show ?case by simp
next
  case (Cons src rest)
  obtain r warned w0 where d: "discoverFromSource this src lmt age w = (r, warned, w0)"
    by (cases "discoverFromSource this src lmt age w") auto
  obtain tools' lines' w2 where c: "collect this rest lmt age w0 = (tools', lines', w2)"
    by (cases "collect this rest lmt age w0") auto
  have warned: "failures warned = []"
    using d by (cases src) (auto split: prod.splits)
  from Cons.IH [OF c] have "failures lines' = []" .
  with Cons.prems d c warned show ?case
    by (cases r) (auto simp: failures_append)
qed

lemma analyzeLoop_dry:
  "analyzeLoop this True ts w = (results, lines, calls, w2)
   \<Longrightarrow> results = [] \<and> calls = [] \<and> w2 = w \<and> failures lines = []"
proof (induction ts arbitrary: results lines calls w2)
  case Nil
  then show ?case by simp
next
  case (Cons t rest)
  obtain rs ls cs w' where r: "analyzeLoop this True rest w = (rs, ls, cs, w')"
    by (cases "analyzeLoop this True rest w") auto
  from Cons.IH [OF r] Cons.prems r show ?case by auto
qed

lemma analyzeLoop_live:
  "analyzeLoop this False ts w = (results, lines, calls, w2)
   \<Longrightarrow> results = kept (classifications this ts w)
     \<and> failures lines = excluded (classifications this ts w)
     \<and> calls = ts"
proof (induction ts arbitrary: w results lines calls w2)
  case Nil
  then show ?case by simp
next
  case (Cons t rest)
  obtain r w1 where a: "ai_analyzeAndDecide this t w = (r, w1)"
    by (cases "ai_analyzeAndDecide this t w") auto
  obtain rs ls cs w' where l: "analyzeLoop this False rest w1 = (rs, ls, cs, w')"
    by (cases "analyzeLoop this False rest w1") auto
  note IH = Cons.IH [OF l]
  show ?case
  proof (cases r)
    case (Inl e)
    with Cons.prems a l IH show ?thesis by auto
  next
    case (Inr d)
    with Cons.prems a l IH show ?thesis by (auto simp: failures_append split: option.splits)
  qed
qed

lemma candidates_Nil: "candidates [] lmt = []"
  by (simp add: candidates_def slice0_def)

lemma discover_live:
  assumes "dryRun options \<noteq> Some True"
    and "collect this (opt_sources options) (opt_limit options) (opt_maxAgeMonths options) w
         = (tools, lines1, w1)"
  shows "returned (discover this options w)
           = Inr (kept (classifications this (candidates tools (opt_limit options)) w1))
       \<and> failures (console (discover this options w))
           = excluded (classifications this (candidates tools (opt_limit options)) w1)
       \<and> analyzed (discover this options w) = candidates tools (opt_limit options)"
proof -
  have live: "opt_dryRun options = False"
    using assms(1) by (cases "dryRun options") (auto simp: opt_dryRun_def)
  obtain results lines2 calls w2 where
    l: "analyzeLoop this False (candidates tools (opt_limit options)) w1 = (results, lines2, calls, w2)"
    by (cases "analyzeLoop this False (candidates tools (opt_limit options)) w1") auto
  show ?thesis
  proof (cases "tools = []")
    case True
    with assms(2) collect_no_failures [OF assms(2)] show ?thesis
      by (simp add: discover_def Let_def failures_append candidates_Nil)
  next
    case False
    with analyzeLoop_live [OF l] collect_no_failures [OF assms(2)] assms(2) l live show ?thesis
      by (simp add: discover_def Let_def failures_append)
  qed
qed

lemma kept_excluded_length: "length (kept cs) + length (excluded cs) = length cs"
  by (induction cs rule: kept.induct) simp_all

lemma classifications_length: "length (classifications this ts w) = length ts"
  by (induction ts arbitrary: w) (simp_all split: prod.splits)

subsection \<open>Runs on the fixtures\<close>

lemma sample_tool_candidate:
  "isCryptoRelated (sample_tool i)" "hasMCPSupport (sample_tool i) = Some True"
  by (simp_all add: sample_tool_def isCryptoRelated_def toLowerCase_def toLowerChar_def
        CRYPTO_KEYWORDS_def)

lemma collect_github_once:
  "collect (pipeline found analyzer) [github] lmt age w = (found, [Log_found (length found) github], w)"
  by (simp add: pipeline_def github_finds_def)

lemma collect_github_twice:
  "collect (pipeline found analyzer) [github, github] lmt age w
   = (found @ found, [Log_found (length found) github, Log_found (length found) github], w)"
  by (simp add: pipeline_def github_finds_def)

lemma candidates_samples:
  "length is \<le> 10 \<Longrightarrow> candidates (map sample_tool is) 10 = map sample_tool is"
  by (simp add: candidates_def slice0_def sample_tool_candidate filter_map o_def)

lemma from_github_opts:
  "opt_sources from_github = [github]" "opt_limit from_github = 10"
  "opt_maxAgeMonths from_github = 12" "dryRun from_github = None"
  by (simp_all add: from_github_def opt_sources_def opt_limit_def opt_maxAgeMonths_def)

lemma github_twice_opts:
  "opt_sources github_twice = [github, github]" "opt_limit github_twice = 10"
  "opt_maxAgeMonths github_twice = 12" "dryRun github_twice = None" "opt_dryRun github_twice = False"
  by (simp_all add: github_twice_def opt_sources_def opt_limit_def opt_maxAgeMonths_def opt_dryRun_def)

lemma classifications_fails_on_t3:
  "classifications (pipeline found (fails_on ''t3'')) five_tools 0
   = [(sample_tool ''t1'', Inr basic_decision), (sample_tool ''t2'', Inr basic_decision),
      (sample_tool ''t3'', Inl (AIResponseError p_openai None None)),
      (sample_tool ''t4'', Inr basic_decision), (sample_tool ''t5'', Inr basic_decision)]"
  by (simp add: five_tools_def pipeline_def fails_on_def sample_tool_def)

lemma classifications_four:
  "classifications (pipeline found (fails_on ''t3'')) four_tools 0
   = [(sample_tool ''t1'', Inr basic_decision), (sample_tool ''t2'', Inr basic_decision),
      (sample_tool ''t4'', Inr basic_decision), (sample_tool ''t5'', Inr basic_decision)]"
  by (simp add: four_tools_def pipeline_def fails_on_def sample_tool_def)

lemma classifications_no_credentials:
  "classifications (pipeline found no_credentials) four_tools 0
   = [(sample_tool ''t1'', Inl (APIKeyError p_openai None)),
      (sample_tool ''t2'', Inl (APIKeyError p_openai None)),
      (sample_tool ''t4'', Inl (APIKeyError p_openai None)),
      (sample_tool ''t5'', Inl (APIKeyError p_openai None))]"
  by (simp add: four_tools_def pipeline_def no_credentials_def)

text \<open>The run of the pipeline on a list of sample tools found by the GitHub adapter.\<close>

lemma discover_samples:
  assumes "length is \<le> 10"
  shows "returned (discover (pipeline (map sample_tool is) analyzer) from_github 0)
           = Inr (kept (classifications (pipeline (map sample_tool is) analyzer) (map sample_tool is) 0))"
    and "failures (console (discover (pipeline (map sample_tool is) analyzer) from_github 0))
           = excluded (classifications (pipeline (map sample_tool is) analyzer) (map sample_tool is) 0)"
    and "analyzed (discover (pipeline (map sample_tool is) analyzer) from_github 0)
           = map sample_tool is"
proof -
  let ?P = "pipeline (map sample_tool is) analyzer"
  have c: "collect ?P (opt_sources from_github) (opt_limit from_github)
             (opt_maxAgeMonths from_github) 0
           = (map sample_tool is, [Log_found (length (map sample_tool is)) github], 0)"
    by (simp only: from_github_opts collect_github_once)
  have cand: "candidates (map sample_tool is) (opt_limit from_github) = map sample_tool is"
    unfolding from_github_opts using assms by (rule candidates_samples)
  have d: "dryRun from_github \<noteq> Some True"
    by (simp add: from_github_opts)
  from discover_live [OF d c]
  show "returned (discover ?P from_github 0) = Inr (kept (classifications ?P (map sample_tool is) 0))"
    and "failures (console (discover ?P from_github 0))
           = excluded (classifications ?P (map sample_tool is) 0)"
    and "analyzed (discover ?P from_github 0) = map sample_tool is"
    unfolding cand by simp_all
qed

lemma classifications_once:
  "classifications (pipeline found (fails_on [])) [sample_tool ''github:owner/repo'', sample_tool ''github:owner/repo''] 0
   = [(sample_tool ''github:owner/repo'', Inr basic_decision), (sample_tool ''github:owner/repo'', Inr basic_decision)]"
  by (simp add: pipeline_def fails_on_def sample_tool_def)

subsection \<open>A failing classification\<close>

text \<open>
  C2. Outside a dry run, every candidate is submitted to the analyzer once, in order. A
  candidate whose classification throws is left out of the returned array and gives one
  \<open>Failed to analyze\<close> line on the error console; every other candidate is returned with
  its decision. The run itself returns, it does not throw, and the results and the logged
  failures together are as many as the candidates.
\<close>

theorem discover_excludes_failures:
  assumes "dryRun options \<noteq> Some True"
    and "collect this (opt_sources options) (opt_limit options) (opt_maxAgeMonths options) w
         = (tools, lines1, w1)"
  shows "returned (discover this options w)
           = Inr (kept (classifications this (candidates tools (opt_limit options)) w1))
       \<and> failures (console (discover this options w))
           = excluded (classifications this (candidates tools (opt_limit options)) w1)
       \<and> analyzed (discover this options w) = candidates tools (opt_limit options)
       \<and> length (kept (classifications this (candidates tools (opt_limit options)) w1))
           + length (failures (console (discover this options w)))
           = length (candidates tools (opt_limit options))"
  using discover_live [OF assms]
        kept_excluded_length [of "classifications this (candidates tools (opt_limit options)) w1"]
  by (simp add: classifications_length)

text \<open>
  Five candidates, the classification of the third throws: four results, one logged failure,
  five calls of the analyzer.
\<close>

theorem discover_excludes_failures_witness:
  "returned (discover (pipeline five_tools (fails_on ''t3'')) from_github 0)
     = Inr (map basic_result [''t1'', ''t2'', ''t4'', ''t5''])
   \<and> failures (console (discover (pipeline five_tools (fails_on ''t3'')) from_github 0))
     = [AIResponseError p_openai None None]
   \<and> analyzed (discover (pipeline five_tools (fails_on ''t3'')) from_github 0) = five_tools"
proof -
  have c: "collect (pipeline five_tools (fails_on ''t3'')) (opt_sources from_github)
             (opt_limit from_github) (opt_maxAgeMonths from_github) 0
           = (five_tools, [Log_found (length five_tools) github], 0)"
    by (simp only: from_github_opts collect_github_once)
  have cand: "candidates five_tools (opt_limit from_github) = five_tools"
    unfolding five_tools_def from_github_opts by (rule candidates_samples) simp
  have "dryRun from_github \<noteq> Some True"
    by (simp add: from_github_opts)
  from discover_excludes_failures [OF this c] show ?thesis
    by (simp add: cand classifications_fails_on_t3 basic_result_def)
qed

text \<open>
  The array handed to the caller is the same for the five candidates of which one is left
  out and for four candidates of which none is: the exclusion shows on the console only.
\<close>

theorem exclusion_not_in_returned_value:
  "returned (discover (pipeline five_tools (fails_on ''t3'')) from_github 0)
     = returned (discover (pipeline four_tools (fails_on ''t3'')) from_github 0)
   \<and> length (failures (console (discover (pipeline five_tools (fails_on ''t3'')) from_github 0))) = 1
   \<and> length (failures (console (discover (pipeline four_tools (fails_on ''t3'')) from_github 0))) = 0"
proof -
  have five: "length [''t1'', ''t2'', ''t3'', ''t4'', ''t5''] \<le> 10"
    and four: "length [''t1'', ''t2'', ''t4'', ''t5''] \<le> 10"
    by simp_all
  show ?thesis
    using discover_samples(1,2) [OF five, of "fails_on ''t3''"]
          discover_samples(1,2) [OF four, of "fails_on ''t3''"]
          classifications_fails_on_t3 [of five_tools] classifications_four [of four_tools]
    by (simp add: five_tools_def four_tools_def)
qed

subsection \<open>The merge of the sources\<close>

text \<open>
  C7. The lists of the sources are appended in the order of the request, and nothing is
  removed: with the GitHub source requested twice, a tool it finds is collected, analyzed
  and returned twice, under the same identifier.
\<close>

theorem discover_keeps_duplicate_ids:
  "returned (discover (pipeline [sample_tool ''github:owner/repo''] (fails_on [])) github_twice 0)
     = Inr [basic_result ''github:owner/repo'', basic_result ''github:owner/repo'']
   \<and> map tool_id (analyzed (discover (pipeline [sample_tool ''github:owner/repo''] (fails_on [])) github_twice 0))
     = [''github:owner/repo'', ''github:owner/repo'']"
proof -
  let ?P = "pipeline [sample_tool ''github:owner/repo''] (fails_on [])"
  have c: "collect ?P (opt_sources github_twice) (opt_limit github_twice)
             (opt_maxAgeMonths github_twice) 0
           = ([sample_tool ''github:owner/repo''] @ [sample_tool ''github:owner/repo''],
              [Log_found (length [sample_tool ''github:owner/repo'']) github,
               Log_found (length [sample_tool ''github:owner/repo'']) github], 0)"
    by (simp only: github_twice_opts collect_github_twice)
  have cand: "candidates ([sample_tool ''github:owner/repo''] @ [sample_tool ''github:owner/repo''])
                (opt_limit github_twice)
              = [sample_tool ''github:owner/repo'', sample_tool ''github:owner/repo'']"
    using candidates_samples [of "[''github:owner/repo'', ''github:owner/repo'']"]
    by (simp add: github_twice_opts)
  have d: "dryRun github_twice \<noteq> Some True"
    by (simp add: github_twice_opts)
  from discover_live [OF d c]
  have r: "returned (discover ?P github_twice 0)
           = Inr (kept (classifications ?P [sample_tool ''github:owner/repo'', sample_tool ''github:owner/repo''] 0))"
    and a: "analyzed (discover ?P github_twice 0)
            = [sample_tool ''github:owner/repo'', sample_tool ''github:owner/repo'']"
    unfolding cand by simp_all
  have "returned (discover ?P github_twice 0)
        = Inr [basic_result ''github:owner/repo'', basic_result ''github:owner/repo'']"
    unfolding r classifications_once by (simp add: basic_result_def)
  moreover have "map tool_id (analyzed (discover ?P github_twice 0))
        = [''github:owner/repo'', ''github:owner/repo'']"
    unfolding a by (simp add: sample_tool_def)
  ultimately show ?thesis by simp
qed

subsection \<open>Dry run\<close>

text \<open>
  C8. With \<open>dryRun: true\<close>, whatever the sources, the limit and the tools found, the
  analyzer is never called and the returned array is empty.
\<close>

theorem discover_dry_run:
  assumes "dryRun options = Some True"
  shows "returned (discover this options w) = Inr []
       \<and> analyzed (discover this options w) = []
       \<and> failures (console (discover this options w)) = []"
proof -
  have dry: "opt_dryRun options = True"
    using assms by (simp add: opt_dryRun_def)
  obtain tools lines1 w1 where
    c: "collect this (opt_sources options) (opt_limit options) (opt_maxAgeMonths options) w
        = (tools, lines1, w1)"
    by (cases "collect this (opt_sources options) (opt_limit options) (opt_maxAgeMonths options) w")
       auto
  obtain results lines2 calls w2 where
    l: "analyzeLoop this True (candidates tools (opt_limit options)) w1 = (results, lines2, calls, w2)"
    by (cases "analyzeLoop this True (candidates tools (opt_limit options)) w1") auto
  from analyzeLoop_dry [OF l] collect_no_failures [OF c] c l dry show ?thesis
    by (simp add: discover_def Let_def failures_append)
qed

text \<open>A dry run over five candidates.\<close>

theorem discover_dry_run_witness:
  "returned (discover (pipeline five_tools (fails_on ''t3'')) dry_run_options 0) = Inr []
   \<and> analyzed (discover (pipeline five_tools (fails_on ''t3'')) dry_run_options 0) = []
   \<and> failures (console (discover (pipeline five_tools (fails_on ''t3'')) dry_run_options 0)) = []"
proof -
  have "dryRun dry_run_options = Some True"
    by (simp add: dry_run_options_def)
  from discover_dry_run [OF this] show ?thesis .
qed

subsection \<open>A missing API key\<close>

text \<open>
  C9. An \<open>APIKeyError\<close> thrown by the classification is caught like any other error of one
  item. When every classification throws it, the run still submits every candidate to the
  analyzer, logs one failure for each, and returns the empty array: it does not throw.
\<close>

theorem discover_catches_api_key_error:
  assumes "dryRun options \<noteq> Some True"
    and "collect this (opt_sources options) (opt_limit options) (opt_maxAgeMonths options) w
         = (tools, lines1, w1)"
    and "\<forall>t w. \<exists>p m. fst (ai_analyzeAndDecide this t w) = Inl (APIKeyError p m)"
  shows "returned (discover this options w) = Inr []
       \<and> analyzed (discover this options w) = candidates tools (opt_limit options)
       \<and> length (failures (console (discover this options w)))
           = length (candidates tools (opt_limit options))"
proof -
  have all_fail: "kept (classifications this ts w') = []
                \<and> length (excluded (classifications this ts w')) = length ts" for ts w'
  proof (induction ts arbitrary: w')
    case Nil
    show ?case by simp
  next
    case (Cons t rest)
    obtain p m where "fst (ai_analyzeAndDecide this t w') = Inl (APIKeyError p m)"
      using assms(3) by blast
    then obtain w1' where "ai_analyzeAndDecide this t w' = (Inl (APIKeyError p m), w1')"
      by (cases "ai_analyzeAndDecide this t w'") auto
    with Cons.IH [of w1'] show ?case by simp
  qed
  from discover_live [OF assms(1,2)]
       all_fail [of "candidates tools (opt_limit options)" w1]
  show ?thesis by simp
qed

text \<open>Four candidates and an analyzer without credentials.\<close>

theorem discover_catches_api_key_error_witness:
  "returned (discover (pipeline four_tools no_credentials) from_github 0) = Inr []
   \<and> analyzed (discover (pipeline four_tools no_credentials) from_github 0) = four_tools
   \<and> length (failures (console (discover (pipeline four_tools no_credentials) from_github 0))) = 4"
proof -
  have c: "collect (pipeline four_tools no_credentials) (opt_sources from_github)
             (opt_limit from_github) (opt_maxAgeMonths from_github) 0
           = (four_tools, [Log_found (length four_tools) github], 0)"
    by (simp only: from_github_opts collect_github_once)
  have cand: "candidates four_tools (opt_limit from_github) = four_tools"
    unfolding four_tools_def from_github_opts by (rule candidates_samples) simp
  have d: "dryRun from_github \<noteq> Some True"
    by (simp add: from_github_opts)
  have a: "\<forall>t w. \<exists>p m. fst (ai_analyzeAndDecide (pipeline four_tools no_credentials) t w)
                         = Inl (APIKeyError p m)"
    by (simp add: pipeline_def no_credentials_def)
  from discover_catches_api_key_error [OF d c a] show ?thesis
    by (simp add: cand) (simp add: four_tools_def)
qed

text \<open>
  The same run returns normally: the promise is not rejected with the \<open>APIKeyError\<close>, the
  error is logged four times and all four candidates were tried.
\<close>

theorem api_key_error_does_not_propagate:
  "returned (discover (pipeline four_tools no_credentials) from_github 0) = Inr []
   \<and> returned (discover (pipeline four_tools no_credentials) from_github 0)
       \<noteq> Inl (APIKeyError p_openai None)
   \<and> failures (console (discover (pipeline four_tools no_credentials) from_github 0))
       = [APIKeyError p_openai None, APIKeyError p_openai None,
          APIKeyError p_openai None, APIKeyError p_openai None]
   \<and> analyzed (discover (pipeline four_tools no_credentials) from_github 0) = four_tools"
proof -
  have four: "length [''t1'', ''t2'', ''t4'', ''t5''] \<le> 10"
    by simp
  show ?thesis
    using discover_samples [OF four, of no_credentials]
          classifications_no_credentials [of four_tools]
    by (simp add: four_tools_def)
qed

end
